theory Spec2Isabelle
  imports Complex_Main "HOL-Library.Sublist"
begin

section \<open>Strings\<close>

text \<open>
  A JavaScript string is modelled as a \<^typ>\<open>string\<close>, one \<^typ>\<open>char\<close> per UTF-16 code
  unit, for code units below 256 (the Latin-1 range). On that range \<open>toLowerCase\<close>
  moves \<open>A\<close>-\<open>Z\<close> and the accented capitals \<open>0xC0\<close>-\<open>0xDE\<close> (without \<open>0xD7\<close>) up by 32,
  the class \<open>\s\<close> (and what \<open>trim\<close> removes) is TAB, LF, VT, FF, CR, space and NBSP, and
  the class \<open>\w\<close> is \<open>[A-Za-z0-9_]\<close>. Message literals of the source that start with a
  pictograph keep it as the bytes of its encoding; no function inspects message text.
\<close>

definition isSpace :: "char \<Rightarrow> bool" where
  "isSpace c = (c \<in> set [CHR 0x09, CHR 0x0A, CHR 0x0B, CHR 0x0C, CHR 0x0D, CHR 0x20, CHR 0xA0])"

definition isWordChar :: "char \<Rightarrow> bool" where
  "isWordChar c = (let n = (of_char c :: nat) in
     (48 \<le> n \<and> n \<le> 57) \<or> (65 \<le> n \<and> n \<le> 90) \<or> n = 95 \<or> (97 \<le> n \<and> n \<le> 122))"

definition toLowerChar :: "char \<Rightarrow> char" where
  "toLowerChar c = (let n = (of_char c :: nat) in
     if (65 \<le> n \<and> n \<le> 90) \<or> (192 \<le> n \<and> n \<le> 222 \<and> n \<noteq> 215)
     then char_of (n + 32) else c)"

definition toLowerCase :: "string \<Rightarrow> string" where
  "toLowerCase s = map toLowerChar s"

definition trim :: "string \<Rightarrow> string" where
  "trim s = rev (dropWhile isSpace (rev (dropWhile isSpace s)))"

text \<open>\<open>s.includes(t)\<close>: \<open>t\<close> occurs in \<open>s\<close> as a contiguous piece.\<close>

fun str_includes :: "string \<Rightarrow> string \<Rightarrow> bool" where
  "str_includes [] t = (t = [])"
| "str_includes (c # s) t = (prefix t (c # s) \<or> str_includes s t)"

text \<open>\<open>xs.join(sep)\<close>.\<close>

fun str_join :: "string \<Rightarrow> string list \<Rightarrow> string" where
  "str_join sep [] = []"
| "str_join sep [x] = x"
| "str_join sep (x # y # ys) = x @ sep @ str_join sep (y # ys)"

text \<open>
  \<open>s.split(/\s+/)\<close>: the pieces between maximal runs of white space. A run at the start
  or at the end of \<open>s\<close> leaves an empty piece there, and the empty string gives one empty
  piece. The flag says that the scan is inside a run; \<open>cur\<close> is the piece read so far.
\<close>

fun splitWS :: "bool \<Rightarrow> string \<Rightarrow> string \<Rightarrow> string list" where
  "splitWS insep cur [] = [cur]"
| "splitWS insep cur (c # cs) =
     (if isSpace c then (if insep then splitWS True cur cs else cur # splitWS True [] cs)
      else splitWS False (cur @ [c]) cs)"

definition split_whitespace :: "string \<Rightarrow> string list" where
  "split_whitespace s = splitWS False [] s"

text \<open>\<open>s.split(' ')\<close>: every single space separates two pieces.\<close>

fun splitSP :: "string \<Rightarrow> string \<Rightarrow> string list" where
  "splitSP cur [] = [cur]"
| "splitSP cur (c # cs) = (if c = CHR 0x20 then cur # splitSP [] cs else splitSP (cur @ [c]) cs)"

definition split_space :: "string \<Rightarrow> string list" where
  "split_space s = splitSP [] s"

text \<open>A number inside a template literal: its decimal digits.\<close>

function showNat :: "nat \<Rightarrow> string" where
  "showNat n = (if n < 10 then [char_of (48 + n)] else showNat (n div 10) @ [char_of (48 + n mod 10)])"
  by pat_completeness auto
termination
  by (relation "measure id") auto

declare showNat.simps [simp del]

text \<open>\<open>[...new Set(xs)]\<close>: the first occurrence of every element, in order.\<close>

fun uniq :: "'a list \<Rightarrow> 'a list \<Rightarrow> 'a list" where
  "uniq seen [] = []"
| "uniq seen (x # xs) = (if x \<in> set seen then uniq seen xs else x # uniq (seen @ [x]) xs)"

text \<open>
  \<open>xs.slice(0, k)\<close> for an integer \<open>k\<close>: a negative \<open>k\<close> counts from the end of the array.
\<close>

definition slice0 :: "'a list \<Rightarrow> int \<Rightarrow> 'a list" where
  "slice0 xs k = (if k < 0 then take (nat (int (length xs) + k)) xs else take (nat k) xs)"

section \<open>The catalog\<close>

text \<open>The fields of the catalog records that the services read.\<close>

record Application =
  a_id :: string
  a_name :: string
  a_description :: string
  a_tags :: "string list"

record DataSource =
  ds_id :: string
  ds_name :: string
  ds_description :: string
  ds_department :: string
  ds_tags :: "string list"

record DataColumn =
  c_name :: string
  c_type :: string
  c_description :: "string option"
  c_sensitive :: "bool option"

record DataTable =
  t_id :: string
  t_name :: string
  t_description :: string
  t_schema :: string
  t_columns :: "DataColumn list"
  t_sensitive :: bool
  t_tags :: "string list"

section \<open>AIDataDiscoveryService\<close>

datatype entityType = application | dataSource | table | column

datatype matchType = exact | semantic | related

datatype dataType =
  credit_card | ssn | email | phone | address | name | password | salary | date_of_birth

text \<open>
  \<open>relevanceScore\<close> is a JavaScript number. In this service it starts at 0 and only whole
  numbers are added to it, so it is a natural number (sums of whole numbers are exact in
  double precision far beyond any catalog).
\<close>

record AISearchResult =
  r_type :: entityType
  r_id :: string
  r_name :: string
  relevanceScore :: nat
  r_reason :: string
  r_path :: string
  r_sensitive :: bool
  r_matchType :: matchType

record AISearchResponse =
  sr_query :: string
  sr_intent :: string
  suggestions :: "AISearchResult list"
  alternativeQueries :: "string list"
  warnings :: "string list"

text \<open>\<open>/(a|b|c)/i.test(s)\<close> for lower-case alternatives: one of them occurs in \<open>s\<close>,
  letter case ignored.\<close>

definition testAny :: "string list \<Rightarrow> string \<Rightarrow> bool" where
  "testAny alts s = list_ex (str_includes (toLowerCase s)) alts"

definition intentPatterns :: "(string list \<times> string) list" where
  "intentPatterns =
    [([''credit card'', ''payment'', ''billing'', ''card number''], ''Find payment/credit card data''),
     ([''customer'', ''user'', ''client'', ''person''], ''Find customer information''),
     ([''order'', ''purchase'', ''transaction'', ''sale''], ''Find transaction/order data''),
     ([''employee'', ''staff'', ''hr'', ''human resource''], ''Find employee/HR data''),
     ([''product'', ''inventory'', ''catalog'', ''item''], ''Find product/inventory data''),
     ([''financial'', ''finance'', ''revenue'', ''profit''], ''Find financial data''),
     ([''marketing'', ''campaign'', ''advertisement''], ''Find marketing data''),
     ([''sensitive'', ''pii'', ''personal'', ''private''], ''Find sensitive/personal data'')]"

fun firstIntent :: "(string list \<times> string) list \<Rightarrow> string \<Rightarrow> string" where
  "firstIntent [] query = ''General data search''"
| "firstIntent ((pattern, intent) # ps) query =
     (if testAny pattern query then intent else firstIntent ps query)"

definition detectIntent :: "string \<Rightarrow> string" where
  "detectIntent query = firstIntent intentPatterns query"

definition keyStopWords :: "string list" where
  "keyStopWords =
    [''the'', ''a'', ''an'', ''and'', ''or'', ''but'', ''in'', ''on'', ''at'', ''to'', ''for'',
     ''of'', ''with'', ''by'', ''from'', ''up'', ''about'', ''into'', ''through'', ''during'',
     ''before'', ''after'', ''above'', ''below'', ''between'', ''among'', ''i'', ''want'',
     ''need'', ''find'', ''get'', ''show'', ''me'', ''data'', ''information'']"

definition extractKeyTerms :: "string \<Rightarrow> string list" where
  "extractKeyTerms query =
     filter (\<lambda>term. length term > 2 \<and> term \<notin> set keyStopWords)
       (split_whitespace
          (map (\<lambda>c. if isWordChar c \<or> isSpace c then c else CHR 0x20) (toLowerCase query)))"

definition dataTypePatterns :: "(string list \<times> dataType) list" where
  "dataTypePatterns =
    [([''credit card'', ''card number'', ''payment card'', ''cc''], credit_card),
     ([''ssn'', ''social security'', ''social security number''], ssn),
     ([''email'', ''e-mail'', ''email address''], email),
     ([''phone'', ''telephone'', ''mobile'', ''cell''], phone),
     ([''address'', ''street'', ''city'', ''zip'', ''postal''], address),
     ([''name'', ''first name'', ''last name'', ''full name''], name),
     ([''password'', ''pwd'', ''passcode''], password),
     ([''salary'', ''wage'', ''income'', ''compensation''], salary),
     ([''dob'', ''date of birth'', ''birthday''], date_of_birth)]"

definition identifyDataTypes :: "string \<Rightarrow> dataType list" where
  "identifyDataTypes query =
     map snd (filter (\<lambda>(pattern, type). testAny pattern query) dataTypePatterns)"


subsection \<open>Scoring one entity\<close>

text \<open>
  Every scorer keeps three local variables: \<open>score\<close>, \<open>reason\<close> and \<open>matchType\<close>,
  starting at \<open>0\<close>, the empty string and \<open>related\<close>.
\<close>

type_synonym scoring = "nat \<times> string \<times> matchType"

text \<open>
  The body of \<open>keyTerms.forEach\<close>: when the entity's text holds the term, the weight is
  added, a reason is appended and the match becomes semantic.
\<close>

definition matchTerm :: "string \<Rightarrow> nat \<Rightarrow> string \<Rightarrow> scoring \<Rightarrow> string \<Rightarrow> scoring" where
  "matchTerm text weight place acc term =
     (case acc of (score, reason, mt) \<Rightarrow>
        if str_includes text term
        then (score + weight,
              reason @ ''Matches '' @ [CHR 0x22] @ term @ [CHR 0x22] @ '' in '' @ place @ ''. '',
              semantic)
        else acc)"

text \<open>
  A guarded update \<open>if (cond) { score += w; reason += msg; matchType = t }\<close>; the last
  assignment is absent where the argument is \<open>None\<close>.
\<close>

definition bump :: "bool \<Rightarrow> nat \<Rightarrow> string \<Rightarrow> matchType option \<Rightarrow> scoring \<Rightarrow> scoring" where
  "bump cond w msg newType acc =
     (case acc of (score, reason, mt) \<Rightarrow>
        if cond
        then (score + w, reason @ msg, (case newType of None \<Rightarrow> mt | Some t \<Rightarrow> t))
        else acc)"

definition scoreApplication :: "string list \<Rightarrow> dataType list \<Rightarrow> Application \<Rightarrow> scoring" where
  "scoreApplication keyTerms dataTypes app =
     (let appText = toLowerCase
            (a_name app @ '' '' @ a_description app @ '' '' @ str_join '' '' (a_tags app));
          s1 = foldl (matchTerm appText 30 ''application details'') (0, [], related) keyTerms
      in if credit_card \<in> set dataTypes
         then bump (str_includes (toLowerCase (a_name app)) ''portal''
                     \<or> str_includes (toLowerCase (a_name app)) ''crm'')
                30 ''Customer-facing application may store payment info. '' None
               (bump (str_includes appText ''payment'' \<or> str_includes appText ''billing''
                       \<or> str_includes appText ''financial'')
                  50 ''Likely contains payment/financial data. '' (Some semantic) s1)
         else s1)"

definition scoreDataSource :: "string list \<Rightarrow> dataType list \<Rightarrow> DataSource \<Rightarrow> scoring" where
  "scoreDataSource keyTerms dataTypes ds =
     (let dsText = toLowerCase
            (ds_name ds @ '' '' @ ds_description ds @ '' '' @ str_join '' '' (ds_tags ds)
               @ '' '' @ ds_department ds);
          s1 = foldl (matchTerm dsText 25 ''data source'') (0, [], related) keyTerms
      in if credit_card \<in> set dataTypes
         then bump (str_includes (toLowerCase (ds_name ds)) ''sales''
                     \<or> str_includes (toLowerCase (ds_name ds)) ''order'')
                35 ''Sales/order data may include payment details. '' None
               (bump (str_includes (toLowerCase (ds_name ds)) ''customer''
                       \<or> str_includes (toLowerCase (ds_description ds)) ''customer'')
                  40 ''Customer database likely contains payment information. '' None s1)
         else s1)"

definition scoreTable :: "string list \<Rightarrow> dataType list \<Rightarrow> DataTable \<Rightarrow> scoring" where
  "scoreTable keyTerms dataTypes tbl =
     (let tableText = toLowerCase
            (t_name tbl @ '' '' @ t_description tbl @ '' '' @ str_join '' '' (t_tags tbl));
          s1 = foldl (matchTerm tableText 20 ''table'') (0, [], related) keyTerms
      in if credit_card \<in> set dataTypes
         then bump (list_ex (\<lambda>col. testAny [''payment'', ''card'', ''billing'', ''cc''] (c_name col))
                      (t_columns tbl))
                60 ''Contains payment-related columns. '' (Some exact)
               (bump (t_name tbl = ''customers'' \<or> t_name tbl = ''orders'')
                  45 ''Table commonly contains payment information. '' (Some semantic) s1)
         else s1)"

definition scoreColumn :: "string list \<Rightarrow> dataType list \<Rightarrow> DataTable \<Rightarrow> DataColumn \<Rightarrow> scoring" where
  "scoreColumn keyTerms dataTypes tbl col =
     (let columnText = toLowerCase
            (c_name col @ '' '' @ (case c_description col of None \<Rightarrow> [] | Some d \<Rightarrow> d)
               @ '' '' @ c_type col);
          s1 = foldl (matchTerm columnText 15 ''column'') (0, [], related) keyTerms
      in if credit_card \<in> set dataTypes
         then if toLowerCase (c_name col)
                   \<in> set [''card_number'', ''credit_card'', ''cc_number'', ''payment_card'']
              then bump True 100 ''Direct match for credit card number field. '' (Some exact) s1
              else if testAny [''card'', ''payment'', ''billing''] (c_name col)
              then bump True 70 ''Payment-related column name. '' (Some semantic) s1
              else if str_includes (c_type col) ''varchar''
                      \<and> (str_includes (c_type col) ''16'' \<or> str_includes (c_type col) ''19'')
                      \<and> t_name tbl = ''customers''
              then bump True 40
                     ''VARCHAR field in customer table, possible card number storage. ''
                     (Some semantic) s1
              else s1
         else s1)"

subsection \<open>The four searches\<close>

text \<open>
  Each search walks its part of the catalog in order and pushes a row onto the shared
  \<open>results\<close> array for every entity whose score is positive.
\<close>

definition applicationRow :: "scoring \<Rightarrow> Application \<Rightarrow> AISearchResult" where
  "applicationRow sc app =
     (case sc of (score, reason, mt) \<Rightarrow>
        \<lparr> r_type = application, r_id = a_id app, r_name = a_name app,
          relevanceScore = score, r_reason = trim reason,
          r_path = ''Application: '' @ a_name app,
          r_sensitive = (''customer-facing'' \<in> set (a_tags app)
                          \<or> str_includes (toLowerCase (a_name app)) ''financial''),
          r_matchType = mt \<rparr>)"

fun searchApplications ::
  "Application list \<Rightarrow> string list \<Rightarrow> dataType list \<Rightarrow> AISearchResult list \<Rightarrow> AISearchResult list"
where
  "searchApplications [] keyTerms dataTypes results = results"
| "searchApplications (app # apps) keyTerms dataTypes results =
     searchApplications apps keyTerms dataTypes
       (let sc = scoreApplication keyTerms dataTypes app
        in if fst sc > 0 then results @ [applicationRow sc app] else results)"

definition dataSourceRow :: "scoring \<Rightarrow> DataSource \<Rightarrow> AISearchResult" where
  "dataSourceRow sc ds =
     (case sc of (score, reason, mt) \<Rightarrow>
        \<lparr> r_type = dataSource, r_id = ds_id ds, r_name = ds_name ds,
          relevanceScore = score, r_reason = trim reason,
          r_path = ''Data Source: '' @ ds_name ds,
          r_sensitive = (''pii'' \<in> set (ds_tags ds) \<or> ''customer'' \<in> set (ds_tags ds)),
          r_matchType = mt \<rparr>)"

fun searchDataSources ::
  "DataSource list \<Rightarrow> string list \<Rightarrow> dataType list \<Rightarrow> AISearchResult list \<Rightarrow> AISearchResult list"
where
  "searchDataSources [] keyTerms dataTypes results = results"
| "searchDataSources (ds # dss) keyTerms dataTypes results =
     searchDataSources dss keyTerms dataTypes
       (let sc = scoreDataSource keyTerms dataTypes ds
        in if fst sc > 0 then results @ [dataSourceRow sc ds] else results)"

definition tableRow :: "scoring \<Rightarrow> DataTable \<Rightarrow> AISearchResult" where
  "tableRow sc tbl =
     (case sc of (score, reason, mt) \<Rightarrow>
        \<lparr> r_type = table, r_id = t_id tbl, r_name = t_name tbl,
          relevanceScore = score, r_reason = trim reason,
          r_path = ''Table: '' @ t_schema tbl @ ''.'' @ t_name tbl,
          r_sensitive = t_sensitive tbl,
          r_matchType = mt \<rparr>)"

fun searchTables ::
  "DataTable list \<Rightarrow> string list \<Rightarrow> dataType list \<Rightarrow> AISearchResult list \<Rightarrow> AISearchResult list"
where
  "searchTables [] keyTerms dataTypes results = results"
| "searchTables (tbl # tbls) keyTerms dataTypes results =
     searchTables tbls keyTerms dataTypes
       (let sc = scoreTable keyTerms dataTypes tbl
        in if fst sc > 0 then results @ [tableRow sc tbl] else results)"

definition columnRow :: "scoring \<Rightarrow> DataTable \<Rightarrow> DataColumn \<Rightarrow> AISearchResult" where
  "columnRow sc tbl col =
     (case sc of (score, reason, mt) \<Rightarrow>
        \<lparr> r_type = column, r_id = t_id tbl @ ''_'' @ c_name col, r_name = c_name col,
          relevanceScore = score, r_reason = trim reason,
          r_path = ''Column: '' @ t_schema tbl @ ''.'' @ t_name tbl @ ''.'' @ c_name col,
          r_sensitive = (c_sensitive col = Some True \<or> t_sensitive tbl),
          r_matchType = mt \<rparr>)"

fun searchTableColumns ::
  "DataTable \<Rightarrow> DataColumn list \<Rightarrow> string list \<Rightarrow> dataType list \<Rightarrow> AISearchResult list
     \<Rightarrow> AISearchResult list"
where
  "searchTableColumns tbl [] keyTerms dataTypes results = results"
| "searchTableColumns tbl (col # cols) keyTerms dataTypes results =
     searchTableColumns tbl cols keyTerms dataTypes
       (let sc = scoreColumn keyTerms dataTypes tbl col
        in if fst sc > 0 then results @ [columnRow sc tbl col] else results)"

fun searchColumns ::
  "DataTable list \<Rightarrow> string list \<Rightarrow> dataType list \<Rightarrow> AISearchResult list \<Rightarrow> AISearchResult list"
where
  "searchColumns [] keyTerms dataTypes results = results"
| "searchColumns (tbl # tbls) keyTerms dataTypes results =
     searchColumns tbls keyTerms dataTypes
       (searchTableColumns tbl (t_columns tbl) keyTerms dataTypes results)"

subsection \<open>Alternative queries, warnings and \<open>searchData\<close>\<close>

definition generateAlternativeQueries :: "string \<Rightarrow> string list \<Rightarrow> string list" where
  "generateAlternativeQueries originalQuery keyTerms =
     take 5
       ((if str_includes (toLowerCase originalQuery) ''credit card''
         then [''payment information'', ''billing data'', ''customer payment methods'',
               ''card number fields'', ''financial transaction data'']
         else [])
        @ (if ''customer'' \<in> set keyTerms
           then [''user profile data'', ''client information'', ''customer records'']
           else []))"

definition sensitivityWarning :: "nat \<Rightarrow> string" where
  "sensitivityWarning n =
     [CHR 0xE2, CHR 0x9A, CHR 0xA0, CHR 0xEF, CHR 0xB8] @ '' '' @ showNat n
       @ '' results contain sensitive data. Ensure you have proper authorization before accessing.''"

definition noExactWarning :: string where
  "noExactWarning =
     [CHR 0xF0, CHR 0x9F, CHR 0x92, CHR 0xA1]
       @ '' No exact matches found. Results are based on semantic analysis and may require verification.''"

definition pciWarning :: string where
  "pciWarning =
     [CHR 0xF0, CHR 0x9F, CHR 0x94, CHR 0x92]
       @ '' Credit card data found. This is highly sensitive PII subject to PCI DSS compliance requirements.''"

definition generateWarnings :: "AISearchResult list \<Rightarrow> string list" where
  "generateWarnings sugg =
     (let sensitiveResults = filter r_sensitive sugg;
          exactMatches = filter (\<lambda>s. r_matchType s = exact) sugg;
          creditCardColumns =
            filter (\<lambda>s. r_type s = column \<and> testAny [''card'', ''payment''] (r_name s)) sugg
      in (if length sensitiveResults > 0 then [sensitivityWarning (length sensitiveResults)] else [])
         @ (if length exactMatches = 0 then [noExactWarning] else [])
         @ (if length creditCardColumns > 0 then [pciWarning] else []))"

text \<open>
  \<open>results.sort((a, b) => b.relevanceScore - a.relevanceScore)\<close>: \<open>Array.prototype.sort\<close>
  is stable (ECMAScript 2019), and the comparator puts the higher score first. The
  stable sort on the negated score is that order.
\<close>

definition sortByRelevance :: "AISearchResult list \<Rightarrow> AISearchResult list" where
  "sortByRelevance results = sort_key (\<lambda>r. - int (relevanceScore r)) results"

text \<open>The \<open>results\<close> array of \<open>searchData\<close> after the four searches, before it is sorted.\<close>

definition searchResults ::
  "string \<Rightarrow> DataSource list \<Rightarrow> DataTable list \<Rightarrow> Application list \<Rightarrow> AISearchResult list" where
  "searchResults query dataSources tables applications =
     (let normalizedQuery = toLowerCase query;
          keyTerms = extractKeyTerms normalizedQuery;
          dataTypes = identifyDataTypes normalizedQuery
      in searchColumns tables keyTerms dataTypes
           (searchTables tables keyTerms dataTypes
              (searchDataSources dataSources keyTerms dataTypes
                 (searchApplications applications keyTerms dataTypes []))))"

definition searchData ::
  "string \<Rightarrow> DataSource list \<Rightarrow> DataTable list \<Rightarrow> Application list \<Rightarrow> AISearchResponse" where
  "searchData query dataSources tables applications =
     (let normalizedQuery = toLowerCase query;
          intent = detectIntent normalizedQuery;
          keyTerms = extractKeyTerms normalizedQuery;
          results = sortByRelevance (searchResults query dataSources tables applications);
          sugg = slice0 results 10
      in \<lparr> sr_query = query, sr_intent = intent, suggestions = sugg,
           alternativeQueries = generateAlternativeQueries query keyTerms,
           warnings = generateWarnings sugg \<rparr>)"

section \<open>RAGSearchService: the plain search\<close>

text \<open>
  Modelled from the spec: the interface \<open>CSVApp\<close> of \<open>csvDataLoader\<close>, whose file is not
  among the sources. An application record carries an id, a name, a category and a
  free-text description; these are the four fields that the services read.
\<close>

record CSVApp =
  app_id :: string
  app_name :: string
  category :: string
  description :: string

text \<open>
  Here \<open>relevanceScore\<close> is a sum of the constants 10, 5, 3, 2, 1.5, 1 and 0.5 divided by
  10 and capped at 1. It is modelled by a rational number: the sums are multiples of one
  half and exact in double precision, distinct sums below 10 give quotients that differ
  by at least 0.05, and the quotient of the sum 1 rounds to the double that the literal
  \<open>0.1\<close> denotes, so every comparison of the program comes out as on the rationals.
\<close>

record RAGSearchResult =
  res_id :: string
  res_title :: string
  res_description :: string
  res_category :: string
  res_relevanceScore :: rat
  res_type :: entityType

definition searchStopWords :: "string list" where
  "searchStopWords =
    [''the'', ''a'', ''an'', ''and'', ''or'', ''but'', ''in'', ''on'', ''at'', ''to'', ''for'',
     ''of'', ''with'', ''by'', ''from'', ''up'', ''about'', ''into'', ''through'', ''during'',
     ''before'', ''after'', ''above'', ''below'', ''between'', ''among'', ''this'', ''that'',
     ''these'', ''those'', ''i'', ''me'', ''my'', ''myself'', ''we'', ''our'', ''ours'', ''ourselves'',
     ''you'', ''your'', ''yours'', ''yourself'', ''yourselves'', ''he'', ''him'', ''his'', ''himself'',
     ''she'', ''her'', ''hers'', ''herself'', ''it'', ''its'', ''itself'', ''they'', ''them'', ''their'',
     ''theirs'', ''themselves'', ''what'', ''which'', ''who'', ''whom'', ''whose'', ''this'', ''that'',
     ''these'', ''those'', ''am'', ''is'', ''are'', ''was'', ''were'', ''be'', ''been'', ''being'',
     ''have'', ''has'', ''had'', ''having'', ''do'', ''does'', ''did'', ''doing'', ''will'', ''would'',
     ''could'', ''should'', ''may'', ''might'', ''must'', ''can'', ''find'', ''search'', ''show'', ''get'']"

text \<open>The pieces are filtered first; the punctuation is removed from the survivors.\<close>

definition extractSearchTerms :: "string \<Rightarrow> string list" where
  "extractSearchTerms query =
     map (filter isWordChar)
       (filter (\<lambda>term. length term > 2 \<and> term \<notin> set searchStopWords)
          (split_whitespace query))"

definition popularCategories :: "string list" where
  "popularCategories = [''Finance'', ''Security'', ''Productivity'', ''Social'']"

text \<open>The body of \<open>searchTerms.forEach\<close> in \<open>calculateRelevanceScore\<close>.\<close>

definition termScore :: "string \<Rightarrow> string \<Rightarrow> string \<Rightarrow> rat \<Rightarrow> string \<Rightarrow> rat" where
  "termScore appName appCategory appDescription score term =
     (let s1 = (if str_includes appName term then score + 2 else score);
          s2 = (if str_includes appCategory term then s1 + 3 / 2 else s1)
      in if str_includes appDescription term then s2 + 1 else s2)"

definition calculateRelevanceScore :: "CSVApp \<Rightarrow> string list \<Rightarrow> string \<Rightarrow> rat" where
  "calculateRelevanceScore app searchTerms fullQuery =
     (let appName = toLowerCase (app_name app);
          appDescription = toLowerCase (description app);
          appCategory = toLowerCase (category app);
          s1 = (if str_includes appName fullQuery then 10 else 0);
          s2 = (if str_includes appCategory fullQuery then s1 + 5 else s1);
          s3 = (if str_includes appDescription fullQuery then s2 + 3 else s2);
          s4 = foldl (termScore appName appCategory appDescription) s3 searchTerms;
          s5 = (if category app \<in> set popularCategories then s4 + 1 / 2 else s4)
      in min (s5 / 10) 1)"

definition searchRow :: "CSVApp \<Rightarrow> rat \<Rightarrow> RAGSearchResult" where
  "searchRow app score =
     \<lparr> res_id = app_id app, res_title = app_name app, res_description = description app,
       res_category = category app, res_relevanceScore = score, res_type = application \<rparr>"

fun searchLoop ::
  "CSVApp list \<Rightarrow> string list \<Rightarrow> string \<Rightarrow> RAGSearchResult list \<Rightarrow> RAGSearchResult list" where
  "searchLoop [] searchTerms fullQuery results = results"
| "searchLoop (app # apps) searchTerms fullQuery results =
     searchLoop apps searchTerms fullQuery
       (let score = calculateRelevanceScore app searchTerms fullQuery
        in if score > 1 / 10 then results @ [searchRow app score] else results)"

text \<open>
  \<open>search(query, limit = 10)\<close>: an absent limit is \<open>None\<close>. The sort is the stable one,
  higher score first.
\<close>

definition search :: "CSVApp list \<Rightarrow> string \<Rightarrow> int option \<Rightarrow> RAGSearchResult list" where
  "search csvData query limit =
     (if query = [] \<or> length (trim query) = 0 then []
      else let searchTerms = extractSearchTerms (toLowerCase query);
               results = searchLoop csvData searchTerms (toLowerCase query) []
           in slice0 (sort_key (\<lambda>r. - res_relevanceScore r) results)
                (case limit of None \<Rightarrow> 10 | Some k \<Rightarrow> k))"

section \<open>GeminiAIService\<close>

record GeminiAIResponse =
  answer :: string
  relevantApps :: "string list"
  suggestedQueries :: "string list"
  confidence :: rat

text \<open>
  What a \<open>catch\<close> clause receives: an \<open>Error\<close> object with its message, or any other
  thrown value.
\<close>

datatype thrown = ErrorObject string | OtherValue

text \<open>
  The call of the external model, \<open>model.generateContent(prompt)\<close> followed by
  \<open>response.text()\<close>, either throws or yields the reply text. The outcome is a parameter of
  the service functions; the prompt, which only the external model reads, is left out.
\<close>

type_synonym modelOutcome = "thrown + string"

definition standardSuggestions :: "string list" where
  "standardSuggestions =
     [''Show me finance applications'', ''What productivity tools are available?'',
      ''Find security-related apps'']"

definition networkErrorAnswer :: string where
  "networkErrorAnswer =
     [CHR 0xE2, CHR 0x9A, CHR 0xA0, CHR 0xEF, CHR 0xB8, CHR 0x8F]
       @ '' Network Error: The Gemini API cannot be accessed directly from the browser due to CORS restrictions. However, I can still help you search through the applications using our local search capabilities.''"

definition apiKeyErrorAnswer :: string where
  "apiKeyErrorAnswer =
     [CHR 0xF0, CHR 0x9F, CHR 0x94, CHR 0x91]
       @ '' API Key Error: There seems to be an issue with the Gemini API key configuration. Please check the API key and try again.''"

text \<open>\<open>error instanceof Error ? error.message : 'Unknown error occurred'\<close>\<close>

definition failureMessage :: "thrown \<Rightarrow> string" where
  "failureMessage e = (case e of ErrorObject m \<Rightarrow> m | OtherValue \<Rightarrow> ''Unknown error occurred'')"

definition serviceErrorAnswer :: "thrown \<Rightarrow> string" where
  "serviceErrorAnswer e =
     [CHR 0xE2, CHR 0x9D, CHR 0x8C] @ '' AI Service Error: '' @ failureMessage e
       @ ''. Using fallback search results instead.''"

definition errorResponse :: "string \<Rightarrow> rat \<Rightarrow> CSVApp list \<Rightarrow> GeminiAIResponse" where
  "errorResponse text conf apps =
     \<lparr> answer = text, relevantApps = map app_id (slice0 apps 3),
       suggestedQueries = standardSuggestions, confidence = conf \<rparr>"

text \<open>The \<open>catch\<close> block of \<open>generateResponse\<close>.\<close>

definition handleGenerateError :: "thrown \<Rightarrow> CSVApp list \<Rightarrow> GeminiAIResponse" where
  "handleGenerateError e apps =
     (case e of
        ErrorObject m \<Rightarrow>
          if str_includes m ''CORS'' \<or> str_includes m ''fetch''
          then errorResponse networkErrorAnswer (8 / 10) apps
          else if str_includes m ''API key''
          then errorResponse apiKeyErrorAnswer (1 / 10) apps
          else errorResponse (serviceErrorAnswer e) (1 / 10) apps
      | OtherValue \<Rightarrow> errorResponse (serviceErrorAnswer e) (1 / 10) apps)"

fun categorySuggestions :: "string list \<Rightarrow> string list \<Rightarrow> string list" where
  "categorySuggestions [] sugg = sugg"
| "categorySuggestions (c # cs) sugg =
     categorySuggestions cs
       (if c \<noteq> [] \<and> length sugg < 3
        then sugg @ [''Show me more '' @ toLowerCase c @ '' applications'']
        else sugg)"

definition generateSuggestedQueries :: "string \<Rightarrow> CSVApp list \<Rightarrow> string list" where
  "generateSuggestedQueries response apps =
     (let s1 = categorySuggestions (uniq [] (map category apps)) [];
          s2 = (if length s1 < 4 then s1 @ [''What are the most popular applications?''] else s1);
          s3 = (if length s2 < 4 then s2 @ [''Find applications by department''] else s2)
      in slice0 s3 4)"

definition parseResponse :: "string \<Rightarrow> CSVApp list \<Rightarrow> GeminiAIResponse" where
  "parseResponse text apps =
     (let lowerText = toLowerCase text;
          c1 = (if str_includes lowerText ''might'' \<or> str_includes lowerText ''possibly''
                   \<or> str_includes lowerText ''perhaps'' then 6 / 10 else 8 / 10);
          c2 = (if str_includes lowerText ''not sure'' \<or> str_includes lowerText ''unclear''
                then 4 / 10 else c1)
      in \<lparr> answer = trim text, relevantApps = map app_id (slice0 apps 5),
           suggestedQueries = generateSuggestedQueries text apps, confidence = c2 \<rparr>)"

text \<open>
  \<open>generateResponse\<close>: the \<open>try\<close> block fails exactly when the model call does, and the
  \<open>catch\<close> block returns. The result type keeps the possibility of a rejected promise.
\<close>

definition gemini_generateResponse ::
  "modelOutcome \<Rightarrow> string \<Rightarrow> CSVApp list \<Rightarrow> CSVApp list \<Rightarrow> thrown + GeminiAIResponse" where
  "gemini_generateResponse outcome query csvData apps =
     (case outcome of
        Inr text \<Rightarrow> Inr (parseResponse text apps)
      | Inl e \<Rightarrow> Inr (handleGenerateError e apps))"

definition gemini_welcomeFallbackAnswer :: "CSVApp list \<Rightarrow> string" where
  "gemini_welcomeFallbackAnswer csvData =
     ''Hi! I'' @ [CHR 0x27] @ ''m your AI assistant for discovering applications in our catalog of ''
       @ showNat (length csvData)
       @ '' apps. I can help you find specific tools, browse categories like ''
       @ str_join '', '' (slice0 (uniq [] (map category csvData)) 3)
       @ '', or answer questions about our available software. Try asking me something like ''
       @ [CHR 0x22] @ ''Show me finance applications'' @ [CHR 0x22] @ '' or ''
       @ [CHR 0x22] @ ''Find productivity tools for teams'' @ [CHR 0x22] @ ''!''"

definition gemini_generateWelcomeResponse ::
  "modelOutcome \<Rightarrow> CSVApp list \<Rightarrow> thrown + GeminiAIResponse" where
  "gemini_generateWelcomeResponse outcome csvData =
     (case outcome of
        Inr text \<Rightarrow>
          Inr \<lparr> answer = trim text, relevantApps = [],
                suggestedQueries =
                  [''Show me finance applications'', ''Find productivity tools for teams'',
                   ''What security apps do we have?'', ''Browse entertainment applications''],
                confidence = 1 \<rparr>
      | Inl e \<Rightarrow>
          Inr \<lparr> answer = gemini_welcomeFallbackAnswer csvData, relevantApps = [],
                suggestedQueries =
                  [''Show me finance applications'', ''Find productivity tools'',
                   ''What security apps are available?'', ''Browse by category''],
                confidence = 1 \<rparr>)"

section \<open>MockAIService\<close>

datatype searchType = st_specific | st_category | st_feature | st_general

record intentRecord =
  i_intent :: string
  i_category :: "string option"
  i_keywords :: "string list"
  i_searchType :: searchType

definition mock_analyzeIntent :: "string \<Rightarrow> intentRecord" where
  "mock_analyzeIntent query =
     (let lowerQuery = toLowerCase query;
          keywords = filter (\<lambda>word. length word > 2) (split_space lowerQuery);
          (cat, st) =
            (if str_includes lowerQuery ''finance'' \<or> str_includes lowerQuery ''money''
             then (Some ''Finance'', st_category)
             else if str_includes lowerQuery ''security'' \<or> str_includes lowerQuery ''privacy''
             then (Some ''Security'', st_category)
             else if str_includes lowerQuery ''productivity'' \<or> str_includes lowerQuery ''work''
             then (Some ''Productivity'', st_category)
             else if str_includes lowerQuery ''entertainment'' \<or> str_includes lowerQuery ''music''
                     \<or> str_includes lowerQuery ''game''
             then (Some ''Entertainment'', st_category)
             else if list_ex (\<lambda>word. word \<in> set [''find'', ''show'', ''get'', ''need'']) keywords
             then (None, st_feature)
             else (None, st_general));
          intent =
            (case cat of
               Some c \<Rightarrow> ''Find applications in the '' @ c @ '' category''
             | None \<Rightarrow>
                 if str_includes lowerQuery ''best'' \<or> str_includes lowerQuery ''top''
                 then ''Find the best applications''
                 else if str_includes lowerQuery ''team'' \<or> str_includes lowerQuery ''collaboration''
                 then ''Find team collaboration tools''
                 else ''Find relevant applications'')
      in \<lparr> i_intent = intent, i_category = cat, i_keywords = keywords, i_searchType = st \<rparr>)"

definition mock_generateWelcomeResponse :: "CSVApp list \<Rightarrow> GeminiAIResponse" where
  "mock_generateWelcomeResponse csvData =
     \<lparr> answer =
         [CHR 0xF0, CHR 0x9F, CHR 0x91, CHR 0x8B]
           @ '' Hello! I'' @ [CHR 0x27] @ ''m your AI assistant for discovering applications in our catalog of ''
           @ showNat (length csvData)
           @ '' enterprise applications. I can help you find specific tools, explore categories like ''
           @ str_join '', '' (slice0 (uniq [] (map category csvData)) 3)
           @ '', and answer questions about our software portfolio. '' @ [CHR 0x0A, CHR 0x0A]
           @ ''What would you like to find today? You can ask me things like ''
           @ [CHR 0x22] @ ''Show me finance applications'' @ [CHR 0x22] @ '' or ''
           @ [CHR 0x22] @ ''What productivity tools do we have for teams?'' @ [CHR 0x22],
       relevantApps = [],
       suggestedQueries =
         [''Show me finance applications'', ''Find productivity tools for teams'',
          ''What security apps do we have?'', ''Browse entertainment applications''],
       confidence = 1 \<rparr>"

section \<open>RAGSearchService: the fallback between the two AI services\<close>

text \<open>
  The orchestrator holds \<open>geminiService\<close> and \<open>mockAIService\<close> and awaits their methods
  inside \<open>try\<close> blocks. A service is modelled by the outcomes of its methods: each either
  throws or returns. The first argument of every method is the number of calls the service
  has received before, so that a service may answer differently from one call to the next.
\<close>

record aiService =
  analyzeIntent :: "nat \<Rightarrow> string \<Rightarrow> thrown + intentRecord"
  generateResponse :: "nat \<Rightarrow> string \<Rightarrow> CSVApp list \<Rightarrow> CSVApp list \<Rightarrow> thrown + GeminiAIResponse"
  generateWelcomeResponse :: "nat \<Rightarrow> CSVApp list \<Rightarrow> thrown + GeminiAIResponse"

text \<open>Of the Gemini service the orchestrator also calls \<open>generateSuggestions\<close>.\<close>

record geminiService = aiService +
  generateSuggestions :: "nat \<Rightarrow> string \<Rightarrow> CSVApp list \<Rightarrow> thrown + string list"

text \<open>
  The fields of a \<open>RAGSearchService\<close> object, and two counters beside them that record how
  many method calls each service has received.
\<close>

record RAGSearchService =
  csvData :: "CSVApp list"
  useGemini :: bool
  geminiCalls :: nat
  mockCalls :: nat

record EnhancedAISearchResponse =
  results :: "RAGSearchResult list"
  aiResponse :: "GeminiAIResponse option"
  intent :: "intentRecord option"

definition resultsOnly :: "RAGSearchResult list \<Rightarrow> EnhancedAISearchResponse" where
  "resultsOnly rs = \<lparr> results = rs, aiResponse = None, intent = None \<rparr>"

definition welcomeOnly :: "GeminiAIResponse \<Rightarrow> EnhancedAISearchResponse" where
  "welcomeOnly w = \<lparr> results = [], aiResponse = Some w, intent = None \<rparr>"

text \<open>
  \<open>results.map(result => this.csvData.find(app => app.app_id === result.id)!).filter(Boolean)\<close>
\<close>

definition relevantAppsOf :: "CSVApp list \<Rightarrow> RAGSearchResult list \<Rightarrow> CSVApp list" where
  "relevantAppsOf apps rs =
     List.map_filter (\<lambda>r. find (\<lambda>app. app_id app = res_id r) apps) rs"

text \<open>
  The welcome of the mock service. This \<open>await\<close> stands outside every \<open>try\<close> block, so a
  rejection would reach the caller.
\<close>

definition welcomeWithMock ::
  "aiService \<Rightarrow> RAGSearchService \<Rightarrow> (thrown + EnhancedAISearchResponse) \<times> RAGSearchService" where
  "welcomeWithMock mock s =
     (case generateWelcomeResponse mock (mockCalls s) (csvData s) of
        Inr w \<Rightarrow> (Inr (welcomeOnly w), s\<lparr>mockCalls := mockCalls s + 1\<rparr>)
      | Inl e \<Rightarrow> (Inl e, s\<lparr>mockCalls := mockCalls s + 1\<rparr>))"

text \<open>
  The two calls of the mock service for a query. They stand inside the outer \<open>try\<close>, whose
  \<open>catch\<close> returns the search results alone.
\<close>

definition answerWithMock ::
  "aiService \<Rightarrow> string \<Rightarrow> CSVApp list \<Rightarrow> RAGSearchResult list \<Rightarrow> RAGSearchService
     \<Rightarrow> (thrown + EnhancedAISearchResponse) \<times> RAGSearchService" where
  "answerWithMock mock query apps rs s =
     (case analyzeIntent mock (mockCalls s) query of
        Inl e \<Rightarrow> (Inr (resultsOnly rs), s\<lparr>mockCalls := mockCalls s + 1\<rparr>)
      | Inr i \<Rightarrow>
          (case generateResponse mock (mockCalls s + 1) query (csvData s) apps of
             Inl e \<Rightarrow> (Inr (resultsOnly rs), s\<lparr>mockCalls := mockCalls s + 2\<rparr>)
           | Inr r \<Rightarrow>
               (Inr \<lparr> results = rs, aiResponse = Some r, intent = Some i \<rparr>,
                s\<lparr>mockCalls := mockCalls s + 2\<rparr>)))"

text \<open>
  \<open>searchWithAI(query, limit = 10, useAI = true)\<close>; an absent argument is \<open>None\<close>. One call
  runs from start to end before the next one starts.
\<close>

definition searchWithAI ::
  "geminiService \<Rightarrow> aiService \<Rightarrow> string \<Rightarrow> int option \<Rightarrow> bool option \<Rightarrow> RAGSearchService
     \<Rightarrow> (thrown + EnhancedAISearchResponse) \<times> RAGSearchService" where
  "searchWithAI gemini mock query limit useAI s =
     (let lim = (case limit of None \<Rightarrow> 10 | Some k \<Rightarrow> k);
          ai = (case useAI of None \<Rightarrow> True | Some b \<Rightarrow> b)
      in if query = [] \<or> length (trim query) = 0
         then if ai
              then if useGemini s
                   then (case generateWelcomeResponse gemini (geminiCalls s) (csvData s) of
                           Inr w \<Rightarrow> (Inr (welcomeOnly w), s\<lparr>geminiCalls := geminiCalls s + 1\<rparr>)
                         | Inl e \<Rightarrow>
                             welcomeWithMock mock
                               (s\<lparr>geminiCalls := geminiCalls s + 1, useGemini := False\<rparr>))
                   else welcomeWithMock mock s
              else (Inr (resultsOnly []), s)
         else let rs = search (csvData s) query (Some lim)
              in if \<not> ai then (Inr (resultsOnly rs), s)
                 else let apps = relevantAppsOf (csvData s) rs
                      in if useGemini s
                         then (case analyzeIntent gemini (geminiCalls s) query of
                                 Inl e \<Rightarrow>
                                   answerWithMock mock query apps rs
                                     (s\<lparr>geminiCalls := geminiCalls s + 1, useGemini := False\<rparr>)
                               | Inr i \<Rightarrow>
                                   (case generateResponse gemini (geminiCalls s + 1) query
                                           (csvData s) apps of
                                      Inl e \<Rightarrow>
                                        answerWithMock mock query apps rs
                                          (s\<lparr>geminiCalls := geminiCalls s + 2, useGemini := False\<rparr>)
                                    | Inr r \<Rightarrow>
                                        (Inr \<lparr> results = rs, aiResponse = Some r, intent = Some i \<rparr>,
                                         s\<lparr>geminiCalls := geminiCalls s + 2\<rparr>)))
                         else answerWithMock mock query apps rs s)"

definition setUseGemini :: "bool \<Rightarrow> RAGSearchService \<Rightarrow> RAGSearchService" where
  "setUseGemini b s = s\<lparr>useGemini := b\<rparr>"

definition isUsingGemini :: "RAGSearchService \<Rightarrow> bool" where
  "isUsingGemini s = useGemini s"

definition retryWithGemini :: "RAGSearchService \<Rightarrow> RAGSearchService" where
  "retryWithGemini s = s\<lparr>useGemini := True\<rparr>"

text \<open>\<open>getAISuggestions\<close> asks the Gemini service whatever \<open>useGemini\<close> says.\<close>

definition getAISuggestions ::
  "geminiService \<Rightarrow> string \<Rightarrow> RAGSearchService \<Rightarrow> string list \<times> RAGSearchService" where
  "getAISuggestions gemini query s =
     ((case generateSuggestions gemini (geminiCalls s) query (csvData s) of
         Inr xs \<Rightarrow> xs
       | Inl e \<Rightarrow> [''Show me productivity applications'', ''Find finance and banking tools'',
                    ''What security apps are available?'', ''Browse entertainment applications'']),
      s\<lparr>geminiCalls := geminiCalls s + 1\<rparr>)"

text \<open>
  The public methods of the class as operations on its state. \<open>search\<close>,
  \<open>getApplicationsByCategory\<close>, \<open>getCategories\<close>, \<open>getStatistics\<close>, \<open>getRecommendations\<close>
  and \<open>isUsingGemini\<close> assign to no field and call no service.
\<close>

datatype operation =
    SearchWithAI string "int option" "bool option"
  | Search string "int option"
  | GetApplicationsByCategory string
  | GetCategories
  | GetStatistics
  | GetAISuggestions string
  | GetRecommendations string "int option"
  | SetUseGemini bool
  | IsUsingGemini
  | RetryWithGemini

fun step :: "geminiService \<Rightarrow> aiService \<Rightarrow> RAGSearchService \<Rightarrow> operation \<Rightarrow> RAGSearchService" where
  "step gemini mock s (SearchWithAI query limit useAI) =
     snd (searchWithAI gemini mock query limit useAI s)"
| "step gemini mock s (GetAISuggestions query) = snd (getAISuggestions gemini query s)"
| "step gemini mock s (SetUseGemini b) = setUseGemini b s"
| "step gemini mock s RetryWithGemini = retryWithGemini s"
| "step gemini mock s (Search query limit) = s"
| "step gemini mock s (GetApplicationsByCategory c) = s"
| "step gemini mock s GetCategories = s"
| "step gemini mock s GetStatistics = s"
| "step gemini mock s (GetRecommendations appId limit) = s"
| "step gemini mock s IsUsingGemini = s"

definition run ::
  "geminiService \<Rightarrow> aiService \<Rightarrow> RAGSearchService \<Rightarrow> operation list \<Rightarrow> RAGSearchService" where
  "run gemini mock s ops = foldl (step gemini mock) s ops"

text \<open>An operation that sets \<open>useGemini\<close> to \<open>true\<close> by an explicit request of the caller.\<close>

fun isReset :: "operation \<Rightarrow> bool" where
  "isReset RetryWithGemini = True"
| "isReset (SetUseGemini b) = b"
| "isReset _ = False"

fun isSuggestionCall :: "operation \<Rightarrow> bool" where
  "isSuggestionCall (GetAISuggestions q) = True"
| "isSuggestionCall _ = False"

text \<open>
  \<open>GeminiAIService.analyzeIntent\<close>: the \<open>try\<close> block calls the model and parses the JSON
  object of the reply. Its outcome is a throw (of the model call or of \<open>JSON.parse\<close>), a
  reply without a JSON object (\<open>None\<close>), or the parsed object. Both the \<open>catch\<close> block and
  the path without JSON return the same default record.
\<close>

definition defaultIntent :: "string \<Rightarrow> intentRecord" where
  "defaultIntent query =
     \<lparr> i_intent = ''Find relevant applications'', i_category = None,
       i_keywords = filter (\<lambda>word. length word > 2) (split_space (toLowerCase query)),
       i_searchType = st_general \<rparr>"

definition gemini_analyzeIntent ::
  "thrown + intentRecord option \<Rightarrow> string \<Rightarrow> thrown + intentRecord" where
  "gemini_analyzeIntent outcome query =
     (case outcome of
        Inr (Some parsed) \<Rightarrow> Inr parsed
      | Inr None \<Rightarrow> Inr (defaultIntent query)
      | Inl e \<Rightarrow> Inr (defaultIntent query))"

text \<open>
  The two services of the repository as values of the interface. \<open>GeminiAIService\<close> gets the
  outcome of the external model for every call. Of \<open>MockAIService\<close> the reply to a query,
  whose text is sampled with \<open>Math.random\<close>, stays a parameter, and so does
  \<open>GeminiAIService.generateSuggestions\<close>.
\<close>

definition geminiAIService ::
  "(nat \<Rightarrow> modelOutcome) \<Rightarrow> (nat \<Rightarrow> thrown + intentRecord option)
     \<Rightarrow> (nat \<Rightarrow> string \<Rightarrow> CSVApp list \<Rightarrow> thrown + string list) \<Rightarrow> geminiService" where
  "geminiAIService model parsed suggestionsOf =
     \<lparr> analyzeIntent = (\<lambda>n query. gemini_analyzeIntent (parsed n) query),
       generateResponse = (\<lambda>n query apps relevant. gemini_generateResponse (model n) query apps relevant),
       generateWelcomeResponse = (\<lambda>n apps. gemini_generateWelcomeResponse (model n) apps),
       generateSuggestions = suggestionsOf \<rparr>"

definition mockAIService ::
  "(nat \<Rightarrow> string \<Rightarrow> CSVApp list \<Rightarrow> CSVApp list \<Rightarrow> thrown + GeminiAIResponse) \<Rightarrow> aiService" where
  "mockAIService respond =
     \<lparr> analyzeIntent = (\<lambda>n query. Inr (mock_analyzeIntent query)),
       generateResponse = respond,
       generateWelcomeResponse = (\<lambda>n apps. Inr (mock_generateWelcomeResponse apps)) \<rparr>"

section \<open>The sensitive-only filter of the schema viewer\<close>

text \<open>
  \<open>SchemaViewer\<close> keeps, under "Show sensitive data only", the tables with
  \<open>table.sensitive || table.columns.some(col => col.sensitive)\<close>.
\<close>

definition showSensitiveOnly :: "DataTable \<Rightarrow> bool" where
  "showSensitiveOnly tbl =
     (t_sensitive tbl \<or> list_ex (\<lambda>col. c_sensitive col = Some True) (t_columns tbl))"

section \<open>Example catalogs\<close>

definition ssnColumn :: DataColumn where
  "ssnColumn =
     \<lparr> c_name = ''ssn'', c_type = ''varchar(11)'', c_description = None,
       c_sensitive = Some True \<rparr>"

definition cardNumberColumn :: DataColumn where
  "cardNumberColumn =
     \<lparr> c_name = ''card_number'', c_type = ''varchar(19)'', c_description = None,
       c_sensitive = Some True \<rparr>"

definition customersTable :: "DataColumn list \<Rightarrow> DataTable" where
  "customersTable cols =
     \<lparr> t_id = ''t1'', t_name = ''customers'', t_description = ''Customer master records'',
       t_schema = ''public'', t_columns = cols, t_sensitive = False, t_tags = [] \<rparr>"

definition portalApp :: Application where
  "portalApp =
     \<lparr> a_id = ''a1'', a_name = ''Credit Card CRM'', a_description = ''billing'', a_tags = [] \<rparr>"

definition wikiApp :: Application where
  "wikiApp = \<lparr> a_id = ''a2'', a_name = ''Wiki'', a_description = ''notes'', a_tags = [] \<rparr>"

section \<open>Notions of the specification\<close>

text \<open>
  The raw score of the plain search as the specification words it: 10, 5 and 3 for the
  full query in the name, the category and the description; 2, 1.5 and 1 for every search
  term in the name, the category and the description; 0.5 for a popular category.
\<close>

definition spec_rawScore :: "CSVApp \<Rightarrow> string list \<Rightarrow> string \<Rightarrow> rat" where
  "spec_rawScore app terms q =
     (let nm = toLowerCase (app_name app);
          cat = toLowerCase (category app);
          desc = toLowerCase (description app)
      in (if str_includes nm q then 10 else 0)
       + (if str_includes cat q then 5 else 0)
       + (if str_includes desc q then 3 else 0)
       + sum_list (map (\<lambda>t. (if str_includes nm t then 2 else 0)
                            + (if str_includes cat t then 3 / 2 else 0)
                            + (if str_includes desc t then 1 else 0)) terms)
       + (if category app \<in> set [''Finance'', ''Security'', ''Productivity'', ''Social'']
          then 1 / 2 else 0))"

text \<open>
  A well-formed \<open>AIResponse\<close> of the specification: at most 5 referenced applications, at
  most 5 suggested queries, a confidence between 0 and 1.
\<close>

definition wellFormed :: "GeminiAIResponse \<Rightarrow> bool" where
  "wellFormed r =
     (length (relevantApps r) \<le> 5 \<and> length (suggestedQueries r) \<le> 5
      \<and> 0 \<le> confidence r \<and> confidence r \<le> 1)"

text \<open>
  A call of the Gemini service that \<open>searchWithAI\<close> awaits for this query in AI mode
  rejects: the welcome for a blank query; else the intent analysis, or the response after
  an intent analysis that returned.
\<close>

definition geminiFails :: "geminiService \<Rightarrow> string \<Rightarrow> int option \<Rightarrow> RAGSearchService \<Rightarrow> bool" where
  "geminiFails gemini query limit s =
     (if query = [] \<or> length (trim query) = 0
      then isl (generateWelcomeResponse gemini (geminiCalls s) (csvData s))
      else isl (analyzeIntent gemini (geminiCalls s) query)
         \<or> isl (generateResponse gemini (geminiCalls s + 1) query (csvData s)
                  (relevantAppsOf (csvData s)
                     (search (csvData s) query
                        (Some (case limit of None \<Rightarrow> 10 | Some k \<Rightarrow> k))))))"

section \<open>Example services and applications\<close>

definition financeApps :: "CSVApp list" where
  "financeApps =
     [\<lparr> app_id = ''1'', app_name = ''Ledger'', category = ''Finance'', description = ''books'' \<rparr>,
      \<lparr> app_id = ''2'', app_name = ''Wiki'', category = ''Docs'', description = ''notes'' \<rparr>,
      \<lparr> app_id = ''3'', app_name = ''Payroll'', category = ''Finance'', description = ''wages'' \<rparr>,
      \<lparr> app_id = ''4'', app_name = ''Budget'', category = ''Finance'', description = ''plans'' \<rparr>]"

definition failingGemini :: geminiService where
  "failingGemini =
     \<lparr> analyzeIntent = (\<lambda>n query. Inl (ErrorObject ''down'')),
       generateResponse = (\<lambda>n query apps relevant. Inl (ErrorObject ''down'')),
       generateWelcomeResponse = (\<lambda>n apps. Inl (ErrorObject ''down'')),
       generateSuggestions = (\<lambda>n query apps. Inl (ErrorObject ''down'')) \<rparr>"

definition cannedRespond ::
  "nat \<Rightarrow> string \<Rightarrow> CSVApp list \<Rightarrow> CSVApp list \<Rightarrow> thrown + GeminiAIResponse" where
  "cannedRespond n query apps relevant =
     Inr \<lparr> answer = ''local'', relevantApps = map app_id (slice0 relevant 5),
           suggestedQueries = [], confidence = 85 / 100 \<rparr>"

definition cannedMock :: aiService where
  "cannedMock = mockAIService cannedRespond"

definition primaryState :: RAGSearchService where
  "primaryState = \<lparr> csvData = financeApps, useGemini = True, geminiCalls = 0, mockCalls = 0 \<rparr>"

definition repliesGemini :: "string \<Rightarrow> geminiService" where
  "repliesGemini reply =
     geminiAIService (\<lambda>n. Inr reply) (\<lambda>n. Inr None) (\<lambda>n query apps. Inr [])"

definition offlineGemini :: geminiService where
  "offlineGemini =
     geminiAIService (\<lambda>n. Inl (ErrorObject ''Failed to fetch'')) (\<lambda>n. Inr None)
       (\<lambda>n query apps. Inr [])"

section \<open>Properties of the strings\<close>

lemma str_includes_prefix: "prefix t s \<Longrightarrow> str_includes s t"
  by (cases s) simp_all

lemma toLowerCase_append: "toLowerCase (a @ b) = toLowerCase a @ toLowerCase b"
  by (simp add: toLowerCase_def)

section \<open>Properties of the discovery search\<close>

subsection \<open>The rows of each search, in closed form\<close>

lemma searchApplications_rows:
  "searchApplications apps kt dt rs =
     rs @ map (\<lambda>a. applicationRow (scoreApplication kt dt a) a)
            (filter (\<lambda>a. 0 < fst (scoreApplication kt dt a)) apps)"
  by (induction apps arbitrary: rs) (simp_all add: Let_def)

lemma searchDataSources_rows:
  "searchDataSources dss kt dt rs =
     rs @ map (\<lambda>d. dataSourceRow (scoreDataSource kt dt d) d)
            (filter (\<lambda>d. 0 < fst (scoreDataSource kt dt d)) dss)"
  by (induction dss arbitrary: rs) (simp_all add: Let_def)

lemma searchTables_rows:
  "searchTables ts kt dt rs =
     rs @ map (\<lambda>t. tableRow (scoreTable kt dt t) t)
            (filter (\<lambda>t. 0 < fst (scoreTable kt dt t)) ts)"
  by (induction ts arbitrary: rs) (simp_all add: Let_def)

lemma searchTableColumns_rows:
  "searchTableColumns t cs kt dt rs =
     rs @ map (\<lambda>c. columnRow (scoreColumn kt dt t c) t c)
            (filter (\<lambda>c. 0 < fst (scoreColumn kt dt t c)) cs)"
  by (induction cs arbitrary: rs) (simp_all add: Let_def)

lemma searchColumns_rows:
  "searchColumns ts kt dt rs =
     rs @ concat (map (\<lambda>t. map (\<lambda>c. columnRow (scoreColumn kt dt t c) t c)
            (filter (\<lambda>c. 0 < fst (scoreColumn kt dt t c)) (t_columns t))) ts)"
  by (induction ts arbitrary: rs) (simp_all add: searchTableColumns_rows)

lemma relevanceScore_applicationRow: "relevanceScore (applicationRow sc a) = fst sc"
  by (simp add: applicationRow_def split: prod.splits)

lemma relevanceScore_dataSourceRow: "relevanceScore (dataSourceRow sc d) = fst sc"
  by (simp add: dataSourceRow_def split: prod.splits)

lemma relevanceScore_tableRow: "relevanceScore (tableRow sc t) = fst sc"
  by (simp add: tableRow_def split: prod.splits)

lemma relevanceScore_columnRow: "relevanceScore (columnRow sc t c) = fst sc"
  by (simp add: columnRow_def split: prod.splits)

lemma searchResults_positive:
  "r \<in> set (searchResults q dss ts apps) \<Longrightarrow> 0 < relevanceScore r"
  by (auto simp: searchResults_def Let_def searchApplications_rows searchDataSources_rows
       searchTables_rows searchColumns_rows relevanceScore_applicationRow
       relevanceScore_dataSourceRow relevanceScore_tableRow relevanceScore_columnRow)

lemma suggestions_searchData:
  "suggestions (searchData q dss ts apps) = take 10 (sortByRelevance (searchResults q dss ts apps))"
  by (simp add: searchData_def Let_def slice0_def)

lemma warnings_searchData:
  "warnings (searchData q dss ts apps) = generateWarnings (suggestions (searchData q dss ts apps))"
  by (simp add: searchData_def Let_def)

lemma set_suggestions:
  "set (suggestions (searchData q dss ts apps)) \<subseteq> set (searchResults q dss ts apps)"
  by (auto simp: suggestions_searchData sortByRelevance_def dest: in_set_takeD)

subsection \<open>The sort\<close>

lemma sorted_sortByRelevance:
  "sorted_wrt (\<lambda>a b. relevanceScore b \<le> relevanceScore a) (sortByRelevance rs)"
proof -
  have "sorted (map (\<lambda>r. - int (relevanceScore r)) (sortByRelevance rs))"
    unfolding sortByRelevance_def by (rule sorted_sort_key)
  then show ?thesis
    by (simp add: sorted_map sorted_wrt_iff_nth_less)
qed

lemma stable_sortByRelevance:
  "filter (\<lambda>r. relevanceScore r = k) (sortByRelevance rs) = filter (\<lambda>r. relevanceScore r = k) rs"
proof -
  have "filter (\<lambda>r. - int (relevanceScore r) = - int k) (sortByRelevance rs)
        = filter (\<lambda>r. - int (relevanceScore r) = - int k) rs"
    unfolding sortByRelevance_def by (rule sort_key_stable)
  then show ?thesis by simp
qed

lemma length_filter_sort_key:
  "length (filter P (sort_key f xs)) = length (filter P xs)"
proof (induction xs)
  case Nil
  show ?case by simp
next
  case (Cons a xs)
  have ins: "length (filter P (insort_key f a zs)) = length (filter P (a # zs))" for zs
    by (induction zs) auto
  show ?case using Cons by (simp add: ins)
qed

text \<open>
  An element stays among the first \<open>n\<close> of the sorted list when at most \<open>n\<close> elements,
  itself included, have a key at most its own.
\<close>

lemma in_take_sort_key:
  fixes f :: "'a \<Rightarrow> 'b::linorder"
  assumes x: "x \<in> set xs" and n: "length (filter (\<lambda>y. f y \<le> f x) xs) \<le> n"
  shows "x \<in> set (take n (sort_key f xs))"
proof -
  let ?ys = "sort_key f xs"
  from x have "x \<in> set ?ys" by simp
  then obtain i where i: "i < length ?ys" "?ys ! i = x"
    unfolding in_set_conv_nth by blast
  have srt: "sorted (map f ?ys)" by (rule sorted_sort_key)
  have "\<forall>y \<in> set (take (Suc i) ?ys). f y \<le> f x"
  proof
    fix y assume "y \<in> set (take (Suc i) ?ys)"
    then obtain j where j: "j < Suc i" "j < length ?ys" "?ys ! j = y"
      by (auto simp: in_set_conv_nth)
    from srt j i have "map f ?ys ! j \<le> map f ?ys ! i"
      by (intro sorted_nth_mono) auto
    with i j show "f y \<le> f x" by simp
  qed
  then have "filter (\<lambda>y. f y \<le> f x) (take (Suc i) ?ys) = take (Suc i) ?ys"
    by (simp add: filter_id_conv)
  then have "length (take (Suc i) ?ys)
      \<le> length (filter (\<lambda>y. f y \<le> f x) (take (Suc i) ?ys @ drop (Suc i) ?ys))"
    by (simp only: filter_append length_append)
  then have "Suc i \<le> length (filter (\<lambda>y. f y \<le> f x) ?ys)"
    using i by simp
  also have "\<dots> = length (filter (\<lambda>y. f y \<le> f x) xs)" by (rule length_filter_sort_key)
  finally have "i < n" using n by simp
  with i show ?thesis by (auto simp: in_set_conv_nth)
qed

lemma in_suggestions:
  assumes "r \<in> set (searchResults q dss ts apps)"
    and "length (filter (\<lambda>y. relevanceScore r \<le> relevanceScore y) (searchResults q dss ts apps)) \<le> 10"
  shows "r \<in> set (suggestions (searchData q dss ts apps))"
proof -
  have "r \<in> set (take 10 (sort_key (\<lambda>r. - int (relevanceScore r)) (searchResults q dss ts apps)))"
    using assms by (intro in_take_sort_key) simp_all
  then show ?thesis
    by (simp add: suggestions_searchData sortByRelevance_def)
qed

subsection \<open>Ranking of the suggestions\<close>

text \<open>
  Claim C2. For every query and catalog the suggestions of \<open>searchData\<close> are at most 10,
  their scores never increase along the list, and for every score the suggestions with
  that score are an initial piece, in the same order, of the rows with that score as the
  searches produced them. The searches produce the rows of the applications, then of the
  data sources, then of the tables, then of the columns, each in catalog order.
\<close>

theorem searchData_suggestions_ranked:
  "let S = suggestions (searchData q dss ts apps);
       R = searchResults q dss ts apps;
       kt = extractKeyTerms (toLowerCase q);
       dt = identifyDataTypes (toLowerCase q)
   in length S \<le> 10
    \<and> sorted_wrt (\<lambda>a b. relevanceScore b \<le> relevanceScore a) S
    \<and> (\<forall>k. prefix (filter (\<lambda>r. relevanceScore r = k) S) (filter (\<lambda>r. relevanceScore r = k) R))
    \<and> R = searchApplications apps kt dt [] @ searchDataSources dss kt dt []
            @ searchTables ts kt dt [] @ searchColumns ts kt dt []
    \<and> searchApplications apps kt dt [] =
        map (\<lambda>a. applicationRow (scoreApplication kt dt a) a)
          (filter (\<lambda>a. 0 < fst (scoreApplication kt dt a)) apps)
    \<and> searchDataSources dss kt dt [] =
        map (\<lambda>d. dataSourceRow (scoreDataSource kt dt d) d)
          (filter (\<lambda>d. 0 < fst (scoreDataSource kt dt d)) dss)
    \<and> searchTables ts kt dt [] =
        map (\<lambda>t. tableRow (scoreTable kt dt t) t)
          (filter (\<lambda>t. 0 < fst (scoreTable kt dt t)) ts)
    \<and> searchColumns ts kt dt [] =
        concat (map (\<lambda>t. map (\<lambda>c. columnRow (scoreColumn kt dt t c) t c)
          (filter (\<lambda>c. 0 < fst (scoreColumn kt dt t c)) (t_columns t))) ts)"
proof -
  let ?R = "searchResults q dss ts apps"
  let ?S = "suggestions (searchData q dss ts apps)"
  let ?kt = "extractKeyTerms (toLowerCase q)" and ?dt = "identifyDataTypes (toLowerCase q)"
  have S: "?S = take 10 (sortByRelevance ?R)"
    by (rule suggestions_searchData)
  have len: "length ?S \<le> 10" by (simp add: S)
  have srt: "sorted_wrt (\<lambda>a b. relevanceScore b \<le> relevanceScore a) ?S"
    unfolding S by (rule sorted_wrt_take) (rule sorted_sortByRelevance)
  have stab: "prefix (filter (\<lambda>r. relevanceScore r = k) ?S) (filter (\<lambda>r. relevanceScore r = k) ?R)"
    for k
  proof -
    have "prefix (filter (\<lambda>r. relevanceScore r = k) (take 10 (sortByRelevance ?R)))
            (filter (\<lambda>r. relevanceScore r = k) (sortByRelevance ?R))"
      by (rule filter_mono_prefix) (rule take_is_prefix)
    then show ?thesis by (simp only: S stable_sortByRelevance)
  qed
  have dec: "?R = searchApplications apps ?kt ?dt [] @ searchDataSources dss ?kt ?dt []
      @ searchTables ts ?kt ?dt [] @ searchColumns ts ?kt ?dt []"
    by (simp add: searchResults_def Let_def searchApplications_rows searchDataSources_rows
         searchTables_rows searchColumns_rows)
  show ?thesis
    unfolding Let_def
    using len srt stab dec
    by (simp add: searchApplications_rows [where rs = "[]"] searchDataSources_rows [where rs = "[]"]
         searchTables_rows [where rs = "[]"] searchColumns_rows [where rs = "[]"])
qed

lemma example_scores:
  "map relevanceScore
     (suggestions (searchData ''credit card'' [] [customersTable [cardNumberColumn]] [wikiApp, portalApp]))
   = [140, 115, 105]"
  by code_simp

theorem searchData_suggestions_ranked_witness:
  "length (suggestions (searchData ''credit card'' [] [customersTable [cardNumberColumn]] [wikiApp, portalApp])) = 3
   \<and> sorted_wrt (\<lambda>a b. relevanceScore b \<le> relevanceScore a)
       (suggestions (searchData ''credit card'' [] [customersTable [cardNumberColumn]] [wikiApp, portalApp]))"
proof -
  have "length (map relevanceScore
     (suggestions (searchData ''credit card'' [] [customersTable [cardNumberColumn]] [wikiApp, portalApp]))) = 3"
    by (simp only: example_scores) simp
  then show ?thesis
    using searchData_suggestions_ranked
      [of "''credit card''" "[]" "[customersTable [cardNumberColumn]]" "[wikiApp, portalApp]"]
    by (simp add: Let_def)
qed

subsection \<open>No row without a positive score\<close>

text \<open>
  Claim C3. Every suggestion of \<open>searchData\<close> has a score above 0, and an entity of any
  of the four kinds whose computed score is 0 adds no row to the results.
\<close>

theorem searchData_scores_positive:
  "(\<forall>r \<in> set (suggestions (searchData q dss ts apps)). 0 < relevanceScore r)
   \<and> (fst (scoreApplication kt dt a) = 0 \<longrightarrow> searchApplications [a] kt dt rs = rs)
   \<and> (fst (scoreDataSource kt dt d) = 0 \<longrightarrow> searchDataSources [d] kt dt rs = rs)
   \<and> (fst (scoreTable kt dt t) = 0 \<longrightarrow> searchTables [t] kt dt rs = rs)
   \<and> (fst (scoreColumn kt dt t' c) = 0 \<longrightarrow> searchTableColumns t' [c] kt dt rs = rs)"
  using set_suggestions [of q dss ts apps] searchResults_positive [of _ q dss ts apps]
  by (auto simp: Let_def)

lemma example_zero_scores:
  "fst (scoreApplication [''credit'', ''card''] [credit_card] wikiApp) = 0
   \<and> fst (scoreDataSource [''credit'', ''card''] [credit_card]
        \<lparr> ds_id = ''d1'', ds_name = ''Logs'', ds_description = ''events'', ds_department = ''IT'',
          ds_tags = [] \<rparr>) = 0
   \<and> fst (scoreTable [''credit'', ''card''] [credit_card]
        ((customersTable [ssnColumn])\<lparr>t_name := ''audit''\<rparr>)) = 0
   \<and> fst (scoreColumn [''credit'', ''card''] [credit_card] (customersTable [ssnColumn]) ssnColumn) = 0"
  by code_simp

theorem searchData_scores_positive_witness:
  "0 < relevanceScore
         (hd (suggestions (searchData ''credit card'' [] [customersTable [cardNumberColumn]]
                [wikiApp, portalApp])))
   \<and> searchApplications [wikiApp] [''credit'', ''card''] [credit_card] [] = []
   \<and> searchDataSources
        [\<lparr> ds_id = ''d1'', ds_name = ''Logs'', ds_description = ''events'', ds_department = ''IT'',
           ds_tags = [] \<rparr>] [''credit'', ''card''] [credit_card] [] = []
   \<and> searchTables [(customersTable [ssnColumn])\<lparr>t_name := ''audit''\<rparr>]
        [''credit'', ''card''] [credit_card] [] = []
   \<and> searchTableColumns (customersTable [ssnColumn]) [ssnColumn]
        [''credit'', ''card''] [credit_card] [] = []"
proof -
  let ?S = "suggestions (searchData ''credit card'' [] [customersTable [cardNumberColumn]]
              [wikiApp, portalApp])"
  have "map relevanceScore ?S \<noteq> []" by (simp only: example_scores) simp
  then have "hd ?S \<in> set ?S" by simp
  then show ?thesis
    using example_zero_scores
      searchData_scores_positive
        [of "''credit card''" "[]" "[customersTable [cardNumberColumn]]" "[wikiApp, portalApp]"
            "[''credit'', ''card'']" "[credit_card]" wikiApp "[]"
            "\<lparr> ds_id = ''d1'', ds_name = ''Logs'', ds_description = ''events'',
               ds_department = ''IT'', ds_tags = [] \<rparr>"
            "(customersTable [ssnColumn])\<lparr>t_name := ''audit''\<rparr>"
            "customersTable [ssnColumn]" ssnColumn]
    by blast
qed

subsection \<open>The query "credit card" and a column named card\_number\<close>

lemma toLowerCase_card_number: "toLowerCase ''card_number'' = ''card_number''"
  by code_simp

lemma keyTerms_credit_card: "extractKeyTerms (toLowerCase ''credit card'') = [''credit'', ''card'']"
  by code_simp

lemma dataTypes_credit_card: "identifyDataTypes (toLowerCase ''credit card'') = [credit_card]"
  by code_simp

lemma testAny_card_number: "testAny [''card'', ''payment''] ''card_number''"
  by code_simp

lemma scoreColumn_card_number:
  assumes "c_name col = ''card_number''"
  shows "\<exists>n reason. scoreColumn [''credit'', ''card''] [credit_card] tbl col = (n, reason, exact)
           \<and> (n = 115 \<or> n = 130)"
proof -
  let ?text = "toLowerCase (c_name col @ '' '' @ (case c_description col of None \<Rightarrow> [] | Some d \<Rightarrow> d)
               @ '' '' @ c_type col)"
  have card: "str_includes ?text ''card''"
    by (rule str_includes_prefix)
       (simp add: assms toLowerCase_append toLowerCase_card_number del: append.simps)
  show ?thesis
    using card
    by (cases "str_includes ?text ''credit''")
       (simp_all add: scoreColumn_def Let_def matchTerm_def bump_def assms toLowerCase_card_number)
qed

text \<open>
  Claim C5, as stated, fails: with ten applications that each score 140 for the query
  "credit card", the ten suggestions are those applications; the column \<open>card_number\<close> of
  the table \<open>public.customers\<close> (score 115) is cut off and no PCI DSS warning is given.
\<close>

theorem credit_card_column_cut_off:
  "t_name (customersTable [cardNumberColumn]) = ''customers''
   \<and> t_schema (customersTable [cardNumberColumn]) = ''public''
   \<and> map c_name (t_columns (customersTable [cardNumberColumn])) = [''card_number'']
   \<and> map r_type (suggestions (searchData ''credit card'' []
         [customersTable [cardNumberColumn]] (replicate 10 portalApp)))
       = replicate 10 application
   \<and> warnings (searchData ''credit card'' []
         [customersTable [cardNumberColumn]] (replicate 10 portalApp)) = [noExactWarning]
   \<and> pciWarning \<noteq> noExactWarning"
proof -
  let ?S = "suggestions (searchData ''credit card'' []
              [customersTable [cardNumberColumn]] (replicate 10 portalApp))"
  have S: "?S = replicate 10
      (applicationRow (scoreApplication [''credit'', ''card''] [credit_card] portalApp) portalApp)"
    by code_simp
  have row: "r_type (applicationRow (scoreApplication [''credit'', ''card''] [credit_card] portalApp)
                portalApp) = application"
    by (simp add: applicationRow_def split: prod.splits)
  have w: "generateWarnings (replicate 10
      (applicationRow (scoreApplication [''credit'', ''card''] [credit_card] portalApp) portalApp))
      = [noExactWarning]"
    by code_simp
  have t: "t_name (customersTable [cardNumberColumn]) = ''customers''
     \<and> t_schema (customersTable [cardNumberColumn]) = ''public''
     \<and> map c_name (t_columns (customersTable [cardNumberColumn])) = [''card_number'']"
    by (simp add: customersTable_def cardNumberColumn_def)
  have d: "pciWarning \<noteq> noExactWarning"
    by (simp add: pciWarning_def noExactWarning_def)
  show ?thesis
    using t d w by (simp only: warnings_searchData S map_replicate row simp_thms)
qed

text \<open>
  Claim C5, amended. For the query "credit card" and every catalog with a table
  \<open>customers\<close> of schema \<open>public\<close> that has a column \<open>card_number\<close>, the search results
  hold a column row for it with match type \<open>exact\<close> and score 115 or 130 (the bonus of
  100 and 15 for each of the two key terms found in the column's text). When at most ten
  result rows, that row included, score at least as much, the row is among the
  suggestions and the warnings contain the PCI DSS entry.
\<close>

theorem credit_card_column_found:
  assumes "tbl \<in> set tables" and "t_name tbl = ''customers''" and "t_schema tbl = ''public''"
    and "col \<in> set (t_columns tbl)" and "c_name col = ''card_number''"
  shows "\<exists>r \<in> set (searchResults ''credit card'' dss tables apps).
           r_type r = column \<and> r_name r = ''card_number''
         \<and> r_path r = ''Column: public.customers.card_number''
         \<and> r_matchType r = exact
         \<and> (relevanceScore r = 100 + 15 \<or> relevanceScore r = 100 + 30)
         \<and> (length (filter (\<lambda>y. relevanceScore r \<le> relevanceScore y)
                      (searchResults ''credit card'' dss tables apps)) \<le> 10
              \<longrightarrow> r \<in> set (suggestions (searchData ''credit card'' dss tables apps))
                \<and> pciWarning \<in> set (warnings (searchData ''credit card'' dss tables apps)))"
proof -
  let ?kt = "[''credit'', ''card'']" and ?dt = "[credit_card]"
  let ?r = "columnRow (scoreColumn ?kt ?dt tbl col) tbl col"
  let ?R = "searchResults ''credit card'' dss tables apps"
  let ?S = "suggestions (searchData ''credit card'' dss tables apps)"
  obtain n reason where sc: "scoreColumn ?kt ?dt tbl col = (n, reason, exact)"
    and n: "n = 115 \<or> n = 130"
    using scoreColumn_card_number [OF assms(5)] by blast
  have pos: "0 < fst (scoreColumn ?kt ?dt tbl col)" using sc n by auto
  have "?r \<in> set (concat (map (\<lambda>t. map (\<lambda>c. columnRow (scoreColumn ?kt ?dt t c) t c)
            (filter (\<lambda>c. 0 < fst (scoreColumn ?kt ?dt t c)) (t_columns t))) tables))"
    using assms(1,4) pos by auto
  then have mem: "?r \<in> set ?R"
    by (simp only: searchResults_def Let_def keyTerms_credit_card dataTypes_credit_card
          searchColumns_rows set_append Un_iff simp_thms)
  have props: "r_type ?r = column" "r_name ?r = ''card_number''"
      "r_path ?r = ''Column: public.customers.card_number''" "r_matchType ?r = exact"
      "relevanceScore ?r = n"
    by (simp_all add: columnRow_def sc assms)
  have top: "?r \<in> set ?S \<and> pciWarning \<in> set (warnings (searchData ''credit card'' dss tables apps))"
    if "length (filter (\<lambda>y. relevanceScore ?r \<le> relevanceScore y) ?R) \<le> 10"
  proof -
    have s: "?r \<in> set ?S"
      using mem that by (rule in_suggestions)
    then have "filter (\<lambda>s. r_type s = column \<and> testAny [''card'', ''payment''] (r_name s)) ?S \<noteq> []"
      using props(1,2) testAny_card_number by (auto simp: filter_empty_conv)
    then have "pciWarning \<in> set (generateWarnings ?S)"
      by (simp add: generateWarnings_def Let_def)
    then show ?thesis using s by (simp add: warnings_searchData)
  qed
  show ?thesis
    using mem props n top by (intro bexI [of _ ?r]) auto
qed

lemma example_result_count:
  "length (searchResults ''credit card'' [] [customersTable [cardNumberColumn]] [wikiApp, portalApp]) = 3"
  by code_simp

theorem credit_card_column_found_witness:
  "customersTable [cardNumberColumn] \<in> set [customersTable [cardNumberColumn]]
   \<and> t_name (customersTable [cardNumberColumn]) = ''customers''
   \<and> t_schema (customersTable [cardNumberColumn]) = ''public''
   \<and> cardNumberColumn \<in> set (t_columns (customersTable [cardNumberColumn]))
   \<and> c_name cardNumberColumn = ''card_number''
   \<and> pciWarning \<in> set (warnings (searchData ''credit card'' []
        [customersTable [cardNumberColumn]] [wikiApp, portalApp]))
   \<and> exact \<in> r_matchType ` set (suggestions (searchData ''credit card'' []
        [customersTable [cardNumberColumn]] [wikiApp, portalApp]))"
proof -
  let ?tbl = "customersTable [cardNumberColumn]"
  let ?R = "searchResults ''credit card'' [] [?tbl] [wikiApp, portalApp]"
  have h: "?tbl \<in> set [?tbl]" "t_name ?tbl = ''customers''" "t_schema ?tbl = ''public''"
    "cardNumberColumn \<in> set (t_columns ?tbl)" "c_name cardNumberColumn = ''card_number''"
    by (simp_all add: customersTable_def cardNumberColumn_def)
  have few: "length (filter P ?R) \<le> 10" for P
    using length_filter_le [of P ?R] by (simp only: example_result_count)
  from credit_card_column_found [OF h, of "[]" "[wikiApp, portalApp]"]
  obtain r where r: "r_matchType r = exact"
    and imp: "length (filter (\<lambda>y. relevanceScore r \<le> relevanceScore y) ?R) \<le> 10
       \<longrightarrow> r \<in> set (suggestions (searchData ''credit card'' [] [?tbl] [wikiApp, portalApp]))
         \<and> pciWarning \<in> set (warnings (searchData ''credit card'' [] [?tbl] [wikiApp, portalApp]))"
    by blast
  from imp few [of "\<lambda>y. relevanceScore r \<le> relevanceScore y"]
  have "r \<in> set (suggestions (searchData ''credit card'' [] [?tbl] [wikiApp, portalApp]))"
    and "pciWarning \<in> set (warnings (searchData ''credit card'' [] [?tbl] [wikiApp, portalApp]))"
    by blast+
  moreover from this(1) r
  have "exact \<in> r_matchType ` set (suggestions (searchData ''credit card'' [] [?tbl] [wikiApp, portalApp]))"
    by (metis imageI)
  ultimately show ?thesis using h by simp
qed

subsection \<open>Sensitivity of a table row\<close>

text \<open>
  Claim C4, as stated, fails: the table \<open>customers\<close> is stored as not sensitive and owns
  the sensitive column \<open>ssn\<close>. The schema viewer's filter counts the table as sensitive.
  For the query "customers", \<open>searchData\<close> returns the table row with \<open>sensitive = false\<close>
  and gives no sensitivity warning.
\<close>

theorem table_row_ignores_sensitive_columns:
  "t_sensitive (customersTable [ssnColumn]) = False
   \<and> map c_sensitive (t_columns (customersTable [ssnColumn])) = [Some True]
   \<and> showSensitiveOnly (customersTable [ssnColumn])
   \<and> map r_type (suggestions (searchData ''customers'' [] [customersTable [ssnColumn]] [])) = [table]
   \<and> map r_sensitive (suggestions (searchData ''customers'' [] [customersTable [ssnColumn]] []))
       = [False]
   \<and> warnings (searchData ''customers'' [] [customersTable [ssnColumn]] []) = [noExactWarning]"
  by code_simp

lemma sensitivityWarning_distinct:
  "sensitivityWarning n \<noteq> noExactWarning \<and> sensitivityWarning n \<noteq> pciWarning"
  by (simp add: sensitivityWarning_def noExactWarning_def pciWarning_def)

lemma sensitivityWarning_iff:
  "(sensitivityWarning (length (filter r_sensitive sugg)) \<in> set (generateWarnings sugg))
     = list_ex r_sensitive sugg"
  using sensitivityWarning_distinct [of "length (filter r_sensitive sugg)"]
  by (auto simp: generateWarnings_def Let_def list_ex_iff filter_empty_conv)

text \<open>
  Claim C4, amended. The aggregate "stored flag or a sensitive column" is the test of the
  schema viewer's sensitive-only filter: a table stored as not sensitive that owns a
  sensitive column passes it. In \<open>searchData\<close> sensitivity is a flag of each row: a table
  row carries the stored flag of its table, a column row is sensitive when the column or
  its table is flagged, and the warnings, computed from the suggestions, hold the
  sensitivity warning exactly when a suggestion is flagged, with the number of flagged
  suggestions.
\<close>

theorem sensitivity_is_per_row:
  "(\<not> t_sensitive tbl \<and> col \<in> set (t_columns tbl) \<and> c_sensitive col = Some True
      \<longrightarrow> showSensitiveOnly tbl)
   \<and> (\<forall>r \<in> set (searchTables tbls kt dt []).
         \<exists>t \<in> set tbls. r_type r = table \<and> r_id r = t_id t \<and> r_sensitive r = t_sensitive t)
   \<and> (\<forall>r \<in> set (searchColumns tbls kt dt []).
         \<exists>t \<in> set tbls. \<exists>c \<in> set (t_columns t).
           r_type r = column \<and> r_name r = c_name c
         \<and> r_sensitive r = (c_sensitive c = Some True \<or> t_sensitive t))
   \<and> warnings (searchData q dss tbls apps)
        = generateWarnings (suggestions (searchData q dss tbls apps))
   \<and> (sensitivityWarning (length (filter r_sensitive sugg)) \<in> set (generateWarnings sugg))
        = list_ex r_sensitive sugg"
proof -
  have filt: "\<not> t_sensitive tbl \<and> col \<in> set (t_columns tbl) \<and> c_sensitive col = Some True
      \<longrightarrow> showSensitiveOnly tbl"
    by (auto simp: showSensitiveOnly_def list_ex_iff)
  have tabs: "\<forall>r \<in> set (searchTables tbls kt dt []).
         \<exists>t \<in> set tbls. r_type r = table \<and> r_id r = t_id t \<and> r_sensitive r = t_sensitive t"
    by (auto simp: searchTables_rows tableRow_def split: prod.splits)
  have cols: "\<forall>r \<in> set (searchColumns tbls kt dt []).
         \<exists>t \<in> set tbls. \<exists>c \<in> set (t_columns t).
           r_type r = column \<and> r_name r = c_name c
         \<and> r_sensitive r = (c_sensitive c = Some True \<or> t_sensitive t)"
  proof
    fix r assume "r \<in> set (searchColumns tbls kt dt [])"
    then obtain t c where tc: "t \<in> set tbls" "c \<in> set (t_columns t)"
      and r: "r = columnRow (scoreColumn kt dt t c) t c"
      by (auto simp: searchColumns_rows)
    have "r_type r = column \<and> r_name r = c_name c
        \<and> r_sensitive r = (c_sensitive c = Some True \<or> t_sensitive t)"
      by (simp add: r columnRow_def split: prod.splits)
    with tc show "\<exists>t \<in> set tbls. \<exists>c \<in> set (t_columns t).
           r_type r = column \<and> r_name r = c_name c
         \<and> r_sensitive r = (c_sensitive c = Some True \<or> t_sensitive t)"
      by blast
  qed
  from filt tabs cols warnings_searchData [of q dss tbls apps] sensitivityWarning_iff [of sugg]
  show ?thesis by blast
qed

lemma example_sensitive_rows:
  "map r_sensitive (searchTables [customersTable [ssnColumn]] [''customers''] [] []) = [False]
   \<and> map r_sensitive (searchColumns [customersTable [ssnColumn]] [''ssn''] [] []) = [True]"
  by code_simp

theorem sensitivity_is_per_row_witness:
  "\<not> t_sensitive (customersTable [ssnColumn])
   \<and> ssnColumn \<in> set (t_columns (customersTable [ssnColumn]))
   \<and> c_sensitive ssnColumn = Some True
   \<and> showSensitiveOnly (customersTable [ssnColumn])
   \<and> r_sensitive (hd (searchTables [customersTable [ssnColumn]] [''customers''] [] []))
        = t_sensitive (customersTable [ssnColumn])
   \<and> r_name (hd (searchColumns [customersTable [ssnColumn]] [''ssn''] [] [])) = ''ssn''"
proof -
  let ?tbl = "customersTable [ssnColumn]"
  let ?T = "searchTables [?tbl] [''customers''] [] []"
  let ?C = "searchColumns [?tbl] [''ssn''] [] []"
  have h: "\<not> t_sensitive ?tbl" "ssnColumn \<in> set (t_columns ?tbl)" "c_sensitive ssnColumn = Some True"
    "t_columns ?tbl = [ssnColumn]" "c_name ssnColumn = ''ssn''"
    by (simp_all add: customersTable_def ssnColumn_def)
  have "map r_sensitive ?T \<noteq> []" "map r_sensitive ?C \<noteq> []"
    using example_sensitive_rows by simp_all
  then have mem: "hd ?T \<in> set ?T" "hd ?C \<in> set ?C"
    by simp_all
  from sensitivity_is_per_row [of ?tbl ssnColumn "[?tbl]" "[''customers'']" "[]" "[]" "[]" "[]" "[]"]
    h(1-3) mem(1)
  have a: "showSensitiveOnly ?tbl" and b: "r_sensitive (hd ?T) = t_sensitive ?tbl"
    by auto
  from sensitivity_is_per_row [of ?tbl ssnColumn "[?tbl]" "[''ssn'']" "[]" "[]" "[]" "[]" "[]"]
    mem(2) h(4,5)
  have c: "r_name (hd ?C) = ''ssn''"
    by auto
  from h(1-3) a b c show ?thesis by blast
qed

section \<open>Properties of the search terms\<close>

text \<open>
  Claim C7 at failing inputs. \<open>extractSearchTerms\<close> filters before it removes the
  punctuation: "the," passes the stop-word filter and becomes the stop word "the", "a.b"
  passes the length filter and becomes "ab", and "..." becomes the empty term, which
  every text contains, so that the plain search for "..." returns every application.
  \<open>extractKeyTerms\<close>, which clears the punctuation first, drops all of them.
\<close>

theorem extractSearchTerms_keeps_stripped_tokens:
  "extractSearchTerms (toLowerCase ''show the, a.b apps'') = [''the'', ''ab'', ''apps'']
   \<and> extractKeyTerms ''show the, a.b apps'' = [''apps'']
   \<and> extractSearchTerms (toLowerCase ''...'') = ['''']
   \<and> extractKeyTerms ''...'' = []
   \<and> map res_relevanceScore
        (search [\<lparr> app_id = ''1'', app_name = ''Wiki'', category = ''Docs'', description = ''notes'' \<rparr>]
           ''...'' None) = [45 / 100]"
  by code_simp

section \<open>Properties of the plain search\<close>

lemma foldl_termScore:
  "foldl (termScore nm cat desc) s terms =
     s + sum_list (map (\<lambda>t. (if str_includes nm t then 2 else 0)
                           + (if str_includes cat t then 3 / 2 else 0)
                           + (if str_includes desc t then 1 else 0)) terms)"
  by (induction terms arbitrary: s) (simp_all add: termScore_def Let_def)

lemma calculateRelevanceScore_spec:
  "calculateRelevanceScore app terms q = min (spec_rawScore app terms q / 10) 1"
proof -
  have "(if category app \<in> set popularCategories then x + 1 / 2 else x)
      = x + (if category app \<in> set [''Finance'', ''Security'', ''Productivity'', ''Social'']
             then 1 / 2 else 0)" for x :: rat
    by (simp add: popularCategories_def)
  then show ?thesis
    by (simp add: calculateRelevanceScore_def spec_rawScore_def Let_def foldl_termScore
          popularCategories_def add.assoc)
qed

lemma calculateRelevanceScore_le_1: "calculateRelevanceScore app terms q \<le> 1"
  by (simp add: calculateRelevanceScore_def Let_def)

lemma searchLoop_rows:
  "searchLoop apps terms q rs =
     rs @ map (\<lambda>a. searchRow a (calculateRelevanceScore a terms q))
            (filter (\<lambda>a. 1 / 10 < calculateRelevanceScore a terms q) apps)"
  by (induction apps arbitrary: rs) (simp_all add: Let_def)

lemma sorted_sort_desc:
  "sorted_wrt (\<lambda>a b. res_relevanceScore b \<le> res_relevanceScore a)
     (sort_key (\<lambda>r. - res_relevanceScore r) rs)"
proof -
  have "sorted (map (\<lambda>r. - res_relevanceScore r) (sort_key (\<lambda>r. - res_relevanceScore r) rs))"
    by (rule sorted_sort_key)
  then show ?thesis
    by (simp add: sorted_map sorted_wrt_iff_nth_less)
qed

lemma slice0_take: "\<exists>n. slice0 xs k = take n xs"
  by (auto simp: slice0_def)

lemma length_slice0: "0 \<le> k \<Longrightarrow> length (slice0 xs k) \<le> nat k"
  by (simp add: slice0_def)

lemma trim_Nil: "trim [] = []"
  by (simp add: trim_def)

lemma blank_iff: "(query = [] \<or> length (trim query) = 0) = (trim query = [])"
  by (auto simp: trim_Nil)

text \<open>
  Claim C8. The score of an application in the plain search is the specification's raw
  score divided by 10 and capped at 1. Every result of \<open>search\<close> scores above 0.1 (and at
  most 1), the results are in descending order, a limit \<open>k \<ge> 0\<close> leaves at most \<open>k\<close> of
  them, and an absent limit is the limit 10. For a non-blank query the results are the
  rows of exactly the applications that score above 0.1, stably sorted and cut.
\<close>

theorem plain_search_scoring:
  "calculateRelevanceScore app terms q = min (spec_rawScore app terms q / 10) 1
   \<and> (\<forall>r \<in> set (search catalog query limit).
         1 / 10 < res_relevanceScore r \<and> res_relevanceScore r \<le> 1)
   \<and> sorted_wrt (\<lambda>a b. res_relevanceScore b \<le> res_relevanceScore a) (search catalog query limit)
   \<and> (0 \<le> k \<longrightarrow> length (search catalog query (Some k)) \<le> nat k)
   \<and> search catalog query None = search catalog query (Some 10)
   \<and> (trim query \<noteq> [] \<longrightarrow>
        search catalog query limit =
          slice0 (sort_key (\<lambda>r. - res_relevanceScore r)
                    (map (\<lambda>a. searchRow a
                             (calculateRelevanceScore a (extractSearchTerms (toLowerCase query))
                                (toLowerCase query)))
                       (filter (\<lambda>a. 1 / 10 < calculateRelevanceScore a
                                   (extractSearchTerms (toLowerCase query)) (toLowerCase query))
                          catalog)))
            (case limit of None \<Rightarrow> 10 | Some k \<Rightarrow> k))"
proof -
  let ?lq = "toLowerCase query"
  let ?ts = "extractSearchTerms ?lq"
  let ?rows = "map (\<lambda>a. searchRow a (calculateRelevanceScore a ?ts ?lq))
                 (filter (\<lambda>a. 1 / 10 < calculateRelevanceScore a ?ts ?lq) catalog)"
  let ?sorted = "sort_key (\<lambda>r. - res_relevanceScore r) ?rows"
  have closed: "search catalog query lim =
      (if trim query = [] then [] else slice0 ?sorted (case lim of None \<Rightarrow> 10 | Some k \<Rightarrow> k))"
    for lim
    by (simp add: search_def blank_iff Let_def searchLoop_rows trim_Nil)
  obtain n where n: "slice0 ?sorted (case limit of None \<Rightarrow> 10 | Some k \<Rightarrow> k) = take n ?sorted"
    using slice0_take by blast
  have bounds: "\<forall>r \<in> set ?sorted. 1 / 10 < res_relevanceScore r \<and> res_relevanceScore r \<le> 1"
    by (auto simp: searchRow_def calculateRelevanceScore_le_1)
  have c2: "\<forall>r \<in> set (search catalog query limit).
              1 / 10 < res_relevanceScore r \<and> res_relevanceScore r \<le> 1"
  proof (cases "trim query = []")
    case True
    then show ?thesis by (simp add: closed)
  next
    case False
    then have "set (search catalog query limit) \<subseteq> set ?sorted"
      by (simp only: closed n if_False set_take_subset)
    then show ?thesis using bounds by blast
  qed
  have c3: "sorted_wrt (\<lambda>a b. res_relevanceScore b \<le> res_relevanceScore a)
              (search catalog query limit)"
    unfolding closed n by (simp add: sorted_wrt_take sorted_sort_desc)
  have c4: "0 \<le> k \<longrightarrow> length (search catalog query (Some k)) \<le> nat k"
    unfolding closed by (simp add: length_slice0)
  have c5: "search catalog query None = search catalog query (Some 10)"
    unfolding closed by simp
  show ?thesis
    using c2 c3 c4 c5 closed [of limit] by (simp add: calculateRelevanceScore_spec)
qed

lemma example_finance_search:
  "map res_id (search financeApps ''finance'' (Some 2)) = [''1'', ''3'']
   \<and> map res_relevanceScore (search financeApps ''finance'' (Some 2)) = [7 / 10, 7 / 10]
   \<and> spec_rawScore (hd financeApps) [''finance''] ''finance'' = 7"
  by code_simp

theorem plain_search_scoring_witness:
  "(0::int) \<le> 2
   \<and> trim ''finance'' \<noteq> []
   \<and> length (search financeApps ''finance'' (Some 2)) = 2
   \<and> calculateRelevanceScore (hd financeApps) [''finance''] ''finance'' = 7 / 10
   \<and> 1 / 10 < res_relevanceScore (hd (search financeApps ''finance'' (Some 2)))"
proof -
  let ?out = "search financeApps ''finance'' (Some 2)"
  have len: "length (map res_id ?out) = 2"
    by (simp only: example_finance_search) simp
  then have "?out \<noteq> []" by auto
  then have hd: "hd ?out \<in> set ?out" by simp
  have t: "trim ''finance'' \<noteq> []" by code_simp
  from plain_search_scoring [of "hd financeApps" "[''finance'']" "''finance''" financeApps
      "''finance''" "Some 2" 2]
  have a: "calculateRelevanceScore (hd financeApps) [''finance''] ''finance''
          = min (spec_rawScore (hd financeApps) [''finance''] ''finance'' / 10) 1"
    and b: "\<forall>r \<in> set ?out. 1 / 10 < res_relevanceScore r \<and> res_relevanceScore r \<le> 1"
    by blast+
  have s: "spec_rawScore (hd financeApps) [''finance''] ''finance'' = 7"
    using example_finance_search by blast
  have a': "calculateRelevanceScore (hd financeApps) [''finance''] ''finance'' = 7 / 10"
    unfolding a s by simp
  have b': "1 / 10 < res_relevanceScore (hd ?out)"
    using b hd by blast
  have l: "length ?out = 2" using len by simp
  have z: "(0::int) \<le> 2" by simp
  from z t l a' b' show ?thesis by blast
qed

section \<open>Properties of the local intent analysis\<close>

text \<open>
  Claim C9, as stated, fails: the query "payment" gets no category and the search type
  \<open>general\<close>; \<open>analyzeIntent\<close> tests only "finance" and "money" for Finance.
\<close>

theorem payment_is_not_finance:
  "i_category (mock_analyzeIntent ''payment'') = None
   \<and> i_searchType (mock_analyzeIntent ''payment'') = st_general"
  by code_simp

text \<open>
  Claim C9, amended. On the lower-cased query the categories are tested in the order
  finance/money (Finance), security/privacy (Security), productivity/work (Productivity),
  entertainment/music/game (Entertainment); the first that occurs gives the category and
  the search type \<open>category\<close>. With no category, the search type is \<open>feature\<close> when one
  of the keywords is find, show, get or need, and \<open>general\<close> otherwise. The keywords are
  the pieces of the lower-cased query between single spaces that are longer than 2
  characters. The function is total.
\<close>

theorem mock_analyzeIntent_classifies:
  "let lq = toLowerCase query;
       kw = filter (\<lambda>w. 2 < length w) (split_space lq);
       fin = (str_includes lq ''finance'' \<or> str_includes lq ''money'');
       sec = (str_includes lq ''security'' \<or> str_includes lq ''privacy'');
       prd = (str_includes lq ''productivity'' \<or> str_includes lq ''work'');
       ent = (str_includes lq ''entertainment'' \<or> str_includes lq ''music''
               \<or> str_includes lq ''game'');
       verb = list_ex (\<lambda>w. w \<in> set [''find'', ''show'', ''get'', ''need'']) kw;
       r = mock_analyzeIntent query
   in i_keywords r = kw
    \<and> (fin \<longrightarrow> i_category r = Some ''Finance'' \<and> i_searchType r = st_category)
    \<and> (\<not> fin \<and> sec \<longrightarrow> i_category r = Some ''Security'' \<and> i_searchType r = st_category)
    \<and> (\<not> fin \<and> \<not> sec \<and> prd \<longrightarrow>
          i_category r = Some ''Productivity'' \<and> i_searchType r = st_category)
    \<and> (\<not> fin \<and> \<not> sec \<and> \<not> prd \<and> ent \<longrightarrow>
          i_category r = Some ''Entertainment'' \<and> i_searchType r = st_category)
    \<and> (\<not> fin \<and> \<not> sec \<and> \<not> prd \<and> \<not> ent \<and> verb \<longrightarrow>
          i_category r = None \<and> i_searchType r = st_feature)
    \<and> (\<not> fin \<and> \<not> sec \<and> \<not> prd \<and> \<not> ent \<and> \<not> verb \<longrightarrow>
          i_category r = None \<and> i_searchType r = st_general)"
  by (simp add: mock_analyzeIntent_def Let_def)

theorem mock_analyzeIntent_classifies_witness:
  "i_category (mock_analyzeIntent ''Send MONEY abroad'') = Some ''Finance''
   \<and> i_searchType (mock_analyzeIntent ''Send MONEY abroad'') = st_category
   \<and> i_category (mock_analyzeIntent ''privacy tools'') = Some ''Security''
   \<and> i_searchType (mock_analyzeIntent ''privacy tools'') = st_category
   \<and> i_category (mock_analyzeIntent ''work chat'') = Some ''Productivity''
   \<and> i_searchType (mock_analyzeIntent ''work chat'') = st_category
   \<and> i_category (mock_analyzeIntent ''music player'') = Some ''Entertainment''
   \<and> i_searchType (mock_analyzeIntent ''music player'') = st_category
   \<and> i_category (mock_analyzeIntent ''show me dashboards'') = None
   \<and> i_searchType (mock_analyzeIntent ''show me dashboards'') = st_feature
   \<and> i_category (mock_analyzeIntent ''pathfinder dashboards'') = None
   \<and> i_searchType (mock_analyzeIntent ''pathfinder dashboards'') = st_general"
proof -
  have h1: "str_includes (toLowerCase ''Send MONEY abroad'') ''money''"
    by code_simp
  from mock_analyzeIntent_classifies [of "''Send MONEY abroad''"] h1
  have r1: "i_category (mock_analyzeIntent ''Send MONEY abroad'') = Some ''Finance''
      \<and> i_searchType (mock_analyzeIntent ''Send MONEY abroad'') = st_category"
    by (simp add: Let_def)
  have h2: "\<not> str_includes (toLowerCase ''privacy tools'') ''finance''
      \<and> \<not> str_includes (toLowerCase ''privacy tools'') ''money''
      \<and> str_includes (toLowerCase ''privacy tools'') ''privacy''"
    by code_simp
  from mock_analyzeIntent_classifies [of "''privacy tools''"] h2
  have r2: "i_category (mock_analyzeIntent ''privacy tools'') = Some ''Security''
      \<and> i_searchType (mock_analyzeIntent ''privacy tools'') = st_category"
    by (simp add: Let_def)
  have h3: "\<not> str_includes (toLowerCase ''work chat'') ''finance''
      \<and> \<not> str_includes (toLowerCase ''work chat'') ''money''
      \<and> \<not> str_includes (toLowerCase ''work chat'') ''security''
      \<and> \<not> str_includes (toLowerCase ''work chat'') ''privacy''
      \<and> str_includes (toLowerCase ''work chat'') ''work''"
    by code_simp
  from mock_analyzeIntent_classifies [of "''work chat''"] h3
  have r3: "i_category (mock_analyzeIntent ''work chat'') = Some ''Productivity''
      \<and> i_searchType (mock_analyzeIntent ''work chat'') = st_category"
    by (simp add: Let_def)
  have h4: "\<not> str_includes (toLowerCase ''music player'') ''finance''
      \<and> \<not> str_includes (toLowerCase ''music player'') ''money''
      \<and> \<not> str_includes (toLowerCase ''music player'') ''security''
      \<and> \<not> str_includes (toLowerCase ''music player'') ''privacy''
      \<and> \<not> str_includes (toLowerCase ''music player'') ''productivity''
      \<and> \<not> str_includes (toLowerCase ''music player'') ''work''
      \<and> str_includes (toLowerCase ''music player'') ''music''"
    by code_simp
  from mock_analyzeIntent_classifies [of "''music player''"] h4
  have r4: "i_category (mock_analyzeIntent ''music player'') = Some ''Entertainment''
      \<and> i_searchType (mock_analyzeIntent ''music player'') = st_category"
    by (simp add: Let_def)
  have h5: "\<not> str_includes (toLowerCase ''show me dashboards'') ''finance''
      \<and> \<not> str_includes (toLowerCase ''show me dashboards'') ''money''
      \<and> \<not> str_includes (toLowerCase ''show me dashboards'') ''security''
      \<and> \<not> str_includes (toLowerCase ''show me dashboards'') ''privacy''
      \<and> \<not> str_includes (toLowerCase ''show me dashboards'') ''productivity''
      \<and> \<not> str_includes (toLowerCase ''show me dashboards'') ''work''
      \<and> \<not> str_includes (toLowerCase ''show me dashboards'') ''entertainment''
      \<and> \<not> str_includes (toLowerCase ''show me dashboards'') ''music''
      \<and> \<not> str_includes (toLowerCase ''show me dashboards'') ''game''
      \<and> list_ex (\<lambda>w. w \<in> set [''find'', ''show'', ''get'', ''need''])
          (filter (\<lambda>w. 2 < length w) (split_space (toLowerCase ''show me dashboards'')))"
    by code_simp
  from mock_analyzeIntent_classifies [of "''show me dashboards''"] h5
  have r5: "i_category (mock_analyzeIntent ''show me dashboards'') = None
      \<and> i_searchType (mock_analyzeIntent ''show me dashboards'') = st_feature"
    by (simp add: Let_def)
  have h6: "\<not> str_includes (toLowerCase ''pathfinder dashboards'') ''finance''
      \<and> \<not> str_includes (toLowerCase ''pathfinder dashboards'') ''money''
      \<and> \<not> str_includes (toLowerCase ''pathfinder dashboards'') ''security''
      \<and> \<not> str_includes (toLowerCase ''pathfinder dashboards'') ''privacy''
      \<and> \<not> str_includes (toLowerCase ''pathfinder dashboards'') ''productivity''
      \<and> \<not> str_includes (toLowerCase ''pathfinder dashboards'') ''work''
      \<and> \<not> str_includes (toLowerCase ''pathfinder dashboards'') ''entertainment''
      \<and> \<not> str_includes (toLowerCase ''pathfinder dashboards'') ''music''
      \<and> \<not> str_includes (toLowerCase ''pathfinder dashboards'') ''game''
      \<and> \<not> list_ex (\<lambda>w. w \<in> set [''find'', ''show'', ''get'', ''need''])
          (filter (\<lambda>w. 2 < length w) (split_space (toLowerCase ''pathfinder dashboards'')))"
    by code_simp
  from mock_analyzeIntent_classifies [of "''pathfinder dashboards''"] h6
  have r6: "i_category (mock_analyzeIntent ''pathfinder dashboards'') = None
      \<and> i_searchType (mock_analyzeIntent ''pathfinder dashboards'') = st_general"
    by (simp add: Let_def)
  from r1 r2 r3 r4 r5 r6 show ?thesis by blast
qed

section \<open>Properties of the Gemini service\<close>

lemma str_includes_sublist: "str_includes s t = sublist t s"
  by (induction s) (simp_all add: sublist_Cons_right)

lemma str_includes_middle: "str_includes (a @ m @ b) m"
  by (simp add: str_includes_sublist sublist_appendI)

lemma length_slice0_le: "0 \<le> k \<Longrightarrow> length (slice0 xs k) \<le> nat k"
  by (simp add: slice0_def)

lemma wellFormed_errorResponse:
  "0 \<le> c \<Longrightarrow> c \<le> 1 \<Longrightarrow> wellFormed (errorResponse text c apps)"
  by (simp add: wellFormed_def errorResponse_def standardSuggestions_def slice0_def)

lemma wellFormed_handleGenerateError: "wellFormed (handleGenerateError e apps)"
  by (cases e) (simp_all add: handleGenerateError_def wellFormed_errorResponse)

lemma wellFormed_parseResponse: "wellFormed (parseResponse text apps)"
  by (simp add: wellFormed_def parseResponse_def generateSuggestedQueries_def Let_def slice0_def)

text \<open>
  Claim C6, as stated, fails: the \<open>catch\<close> block tests the message for "CORS" and "fetch"
  before it tests it for "API key". A failure of the API key whose message also holds
  "fetch" gets the network answer with confidence 0.8, not the key answer with 0.1.
\<close>

theorem api_key_failure_answered_as_network:
  "str_includes ''Error fetching from the endpoint: API key not valid'' ''API key''
   \<and> answer (projr (gemini_generateResponse
          (Inl (ErrorObject ''Error fetching from the endpoint: API key not valid''))
          ''finance'' financeApps financeApps)) = networkErrorAnswer
   \<and> confidence (projr (gemini_generateResponse
          (Inl (ErrorObject ''Error fetching from the endpoint: API key not valid''))
          ''finance'' financeApps financeApps)) = 8 / 10
   \<and> networkErrorAnswer \<noteq> apiKeyErrorAnswer"
proof -
  have h: "str_includes ''Error fetching from the endpoint: API key not valid'' ''fetch''"
    "str_includes ''Error fetching from the endpoint: API key not valid'' ''API key''"
    by code_simp+
  have d: "networkErrorAnswer \<noteq> apiKeyErrorAnswer"
    by (simp add: networkErrorAnswer_def apiKeyErrorAnswer_def)
  from h d show ?thesis
    by (simp add: gemini_generateResponse_def handleGenerateError_def errorResponse_def)
qed

text \<open>
  Claim C6, amended. Whatever the model call does, \<open>generateResponse\<close> returns a
  well-formed response and never rejects. The failure is classified by its message, in
  this order: a message that holds "CORS" or "fetch" gives the fixed network answer with
  confidence 0.8 (also when it holds "API key"); otherwise a message that holds "API key"
  gives the fixed key answer, a different text, with confidence 0.1; every other failure
  gives the service-error answer with confidence 0.1, which embeds the failure message
  (for a thrown value that is no \<open>Error\<close>, the text "Unknown error occurred").
\<close>

theorem gemini_generateResponse_absorbs_failure:
  "(\<exists>r. gemini_generateResponse outcome query catalog apps = Inr r \<and> wellFormed r)
   \<and> (str_includes m ''CORS'' \<or> str_includes m ''fetch'' \<longrightarrow>
        (\<exists>r. gemini_generateResponse (Inl (ErrorObject m)) query catalog apps = Inr r
           \<and> answer r = networkErrorAnswer \<and> confidence r = 8 / 10))
   \<and> (\<not> str_includes m ''CORS'' \<and> \<not> str_includes m ''fetch'' \<and> str_includes m ''API key'' \<longrightarrow>
        (\<exists>r. gemini_generateResponse (Inl (ErrorObject m)) query catalog apps = Inr r
           \<and> answer r = apiKeyErrorAnswer \<and> confidence r = 1 / 10))
   \<and> (\<not> str_includes m ''CORS'' \<and> \<not> str_includes m ''fetch'' \<and> \<not> str_includes m ''API key'' \<longrightarrow>
        (\<exists>r. gemini_generateResponse (Inl (ErrorObject m)) query catalog apps = Inr r
           \<and> answer r = serviceErrorAnswer (ErrorObject m) \<and> str_includes (answer r) m
           \<and> confidence r = 1 / 10))
   \<and> (\<exists>r. gemini_generateResponse (Inl OtherValue) query catalog apps = Inr r
           \<and> answer r = serviceErrorAnswer OtherValue
           \<and> str_includes (answer r) ''Unknown error occurred'' \<and> confidence r = 1 / 10)
   \<and> networkErrorAnswer \<noteq> apiKeyErrorAnswer"
proof -
  have total: "\<exists>r. gemini_generateResponse outcome query catalog apps = Inr r \<and> wellFormed r"
    by (cases outcome)
       (simp_all add: gemini_generateResponse_def wellFormed_handleGenerateError
          wellFormed_parseResponse)
  have embed: "str_includes (serviceErrorAnswer e) (failureMessage e)" for e
  proof -
    have "serviceErrorAnswer e =
        ([CHR 0xE2, CHR 0x9D, CHR 0x8C] @ '' AI Service Error: '') @ failureMessage e
          @ ''. Using fallback search results instead.''"
      by (simp add: serviceErrorAnswer_def)
    then show ?thesis by (simp only: str_includes_middle)
  qed
  have other: "answer (handleGenerateError OtherValue apps) = serviceErrorAnswer OtherValue
      \<and> str_includes (answer (handleGenerateError OtherValue apps)) ''Unknown error occurred''
      \<and> confidence (handleGenerateError OtherValue apps) = 1 / 10"
    using embed [of OtherValue]
    by (simp add: handleGenerateError_def errorResponse_def failureMessage_def)
  have differ: "networkErrorAnswer \<noteq> apiKeyErrorAnswer"
    by (simp add: networkErrorAnswer_def apiKeyErrorAnswer_def)
  show ?thesis
    using total other differ embed [of "ErrorObject m"]
    by (simp add: gemini_generateResponse_def handleGenerateError_def errorResponse_def
          failureMessage_def)
qed

theorem gemini_generateResponse_absorbs_failure_witness:
  "answer (projr (gemini_generateResponse (Inl (ErrorObject ''Failed to fetch'')) ''finance''
             financeApps financeApps)) = networkErrorAnswer
   \<and> answer (projr (gemini_generateResponse (Inl (ErrorObject ''API key not valid'')) ''finance''
             financeApps financeApps)) = apiKeyErrorAnswer
   \<and> confidence (projr (gemini_generateResponse (Inl (ErrorObject ''quota exceeded'')) ''finance''
             financeApps financeApps)) = 1 / 10
   \<and> str_includes (answer (projr (gemini_generateResponse (Inl (ErrorObject ''quota exceeded''))
             ''finance'' financeApps financeApps))) ''quota exceeded''"
proof -
  have h1: "str_includes ''Failed to fetch'' ''fetch''"
    by code_simp
  have h2: "\<not> str_includes ''API key not valid'' ''CORS'' \<and> \<not> str_includes ''API key not valid'' ''fetch''
      \<and> str_includes ''API key not valid'' ''API key''"
    by code_simp
  have h3: "\<not> str_includes ''quota exceeded'' ''CORS'' \<and> \<not> str_includes ''quota exceeded'' ''fetch''
      \<and> \<not> str_includes ''quota exceeded'' ''API key''"
    by code_simp
  from gemini_generateResponse_absorbs_failure
         [of "Inr []" "''finance''" financeApps financeApps "''Failed to fetch''"] h1
  have r1: "answer (projr (gemini_generateResponse (Inl (ErrorObject ''Failed to fetch'')) ''finance''
             financeApps financeApps)) = networkErrorAnswer"
    by auto
  from gemini_generateResponse_absorbs_failure
         [of "Inr []" "''finance''" financeApps financeApps "''API key not valid''"] h2
  have r2: "answer (projr (gemini_generateResponse (Inl (ErrorObject ''API key not valid'')) ''finance''
             financeApps financeApps)) = apiKeyErrorAnswer"
    by auto
  from gemini_generateResponse_absorbs_failure
         [of "Inr []" "''finance''" financeApps financeApps "''quota exceeded''"] h3
  have r3: "confidence (projr (gemini_generateResponse (Inl (ErrorObject ''quota exceeded'')) ''finance''
             financeApps financeApps)) = 1 / 10
     \<and> str_includes (answer (projr (gemini_generateResponse (Inl (ErrorObject ''quota exceeded''))
             ''finance'' financeApps financeApps))) ''quota exceeded''"
    by auto
  from r1 r2 r3 show ?thesis by blast
qed

section \<open>Properties of the fallback\<close>

lemma welcomeWithMock_state:
  "useGemini (snd (welcomeWithMock mock s)) = useGemini s
   \<and> geminiCalls (snd (welcomeWithMock mock s)) = geminiCalls s
   \<and> mockCalls (snd (welcomeWithMock mock s)) = mockCalls s + 1"
  by (simp add: welcomeWithMock_def split: sum.splits)

lemma answerWithMock_state:
  "useGemini (snd (answerWithMock mock q apps rs s)) = useGemini s
   \<and> geminiCalls (snd (answerWithMock mock q apps rs s)) = geminiCalls s
   \<and> mockCalls s < mockCalls (snd (answerWithMock mock q apps rs s))"
  by (simp add: answerWithMock_def split: sum.splits)

lemma answerWithMock_calls:
  "n = mockCalls s \<Longrightarrow> n < mockCalls (snd (answerWithMock mock q apps rs s))"
  by (simp add: answerWithMock_def split: sum.splits)

lemma welcomeWithMock_answer:
  "fst (welcomeWithMock mock (s\<lparr>geminiCalls := n, useGemini := b\<rparr>))
     = fst (welcomeWithMock mock (s\<lparr>useGemini := b'\<rparr>))"
  by (simp add: welcomeWithMock_def split: sum.splits)

lemma answerWithMock_answer:
  "fst (answerWithMock mock q apps rs (s\<lparr>geminiCalls := n, useGemini := b\<rparr>))
     = fst (answerWithMock mock q apps rs (s\<lparr>useGemini := b'\<rparr>))"
  by (simp add: answerWithMock_def split: sum.splits)

lemma searchWithAI_degraded:
  assumes "\<not> useGemini s"
  shows "\<not> useGemini (snd (searchWithAI gemini mock query limit useAI s))
       \<and> geminiCalls (snd (searchWithAI gemini mock query limit useAI s)) = geminiCalls s"
  using assms
  by (simp add: searchWithAI_def Let_def welcomeWithMock_state answerWithMock_state)

lemma searchWithAI_local:
  assumes "\<not> useGemini s" and "useAI \<noteq> Some False"
  shows "searchWithAI gemini mock query limit useAI s =
           (if trim query = [] then welcomeWithMock mock s
            else answerWithMock mock query
                   (relevantAppsOf (csvData s)
                      (search (csvData s) query (Some (case limit of None \<Rightarrow> 10 | Some k \<Rightarrow> k))))
                   (search (csvData s) query (Some (case limit of None \<Rightarrow> 10 | Some k \<Rightarrow> k))) s)"
proof -
  have ai: "(case useAI of None \<Rightarrow> True | Some b \<Rightarrow> b)"
    using assms(2) by (cases useAI) auto
  show ?thesis
    using assms(1) ai by (auto simp: searchWithAI_def Let_def trim_Nil)
qed

lemma searchWithAI_falls_back:
  assumes "useGemini s" and "useAI \<noteq> Some False" and "geminiFails gemini query limit s"
  shows "\<not> useGemini (snd (searchWithAI gemini mock query limit useAI s))
       \<and> fst (searchWithAI gemini mock query limit useAI s)
           = fst (searchWithAI gemini mock query limit useAI (s\<lparr>useGemini := False\<rparr>))
       \<and> mockCalls s < mockCalls (snd (searchWithAI gemini mock query limit useAI s))"
proof -
  have ai: "(case useAI of None \<Rightarrow> True | Some b \<Rightarrow> b)"
    using assms(2) by (cases useAI) auto
  show ?thesis
  proof (cases "query = [] \<or> length (trim query) = 0")
    case True
    with assms(3) obtain e where
      "generateWelcomeResponse gemini (geminiCalls s) (csvData s) = Inl e"
      by (auto simp: geminiFails_def isl_def)
    with True assms(1) ai show ?thesis
      by (simp add: searchWithAI_def Let_def welcomeWithMock_state
            welcomeWithMock_answer [where b' = False])
  next
    case False
    let ?lim = "case limit of None \<Rightarrow> 10 | Some k \<Rightarrow> k"
    let ?rs = "search (csvData s) query (Some ?lim)"
    let ?apps = "relevantAppsOf (csvData s) ?rs"
    from False assms(3) have
      "isl (analyzeIntent gemini (geminiCalls s) query)
       \<or> isl (generateResponse gemini (geminiCalls s + 1) query (csvData s) ?apps)"
      by (simp add: geminiFails_def)
    with False assms(1) ai show ?thesis
      by (auto simp: searchWithAI_def Let_def answerWithMock_state isl_def
            answerWithMock_calls answerWithMock_answer [where b' = False] split: sum.splits)
  qed
qed

lemma step_degraded:
  assumes "\<not> useGemini s" and "\<not> isReset op"
  shows "\<not> useGemini (step gemini mock s op)
       \<and> geminiCalls (step gemini mock s op)
           = geminiCalls s + (if isSuggestionCall op then 1 else 0)"
  using assms
  by (cases op)
     (simp_all add: searchWithAI_degraded getAISuggestions_def setUseGemini_def)

lemma run_degraded:
  assumes "\<not> useGemini s" and "list_all (\<lambda>op. \<not> isReset op) ops"
  shows "\<not> useGemini (run gemini mock s ops)
       \<and> geminiCalls (run gemini mock s ops)
           = geminiCalls s + length (filter isSuggestionCall ops)"
  using assms
proof (induction ops arbitrary: s)
  case Nil
  then show ?case by (simp add: run_def)
next
  case (Cons op ops)
  from Cons.prems have d: "\<not> useGemini (step gemini mock s op)"
    and c: "geminiCalls (step gemini mock s op)
              = geminiCalls s + (if isSuggestionCall op then 1 else 0)"
    using step_degraded [of s op gemini mock] by simp_all
  from Cons.prems have "list_all (\<lambda>op. \<not> isReset op) ops" by simp
  from Cons.IH [OF d this] c show ?case
    by (simp add: run_def)
qed

text \<open>
  What the caller gets from the mock service, written out: the results of the plain
  search with the intent and the response that the mock service returned (the results
  alone when one of its two calls rejects), and for a blank query its welcome.
\<close>

lemma searchWithAI_mock_answer:
  assumes "\<not> useGemini s \<or> geminiFails gemini query limit s" and "useAI \<noteq> Some False"
  shows "fst (searchWithAI gemini mock query limit useAI s) =
           (if trim query = []
            then (case generateWelcomeResponse mock (mockCalls s) (csvData s) of
                    Inl e \<Rightarrow> Inl e
                  | Inr w \<Rightarrow> Inr \<lparr> results = [], aiResponse = Some w, intent = None \<rparr>)
            else (case analyzeIntent mock (mockCalls s) query of
                    Inl e \<Rightarrow>
                      Inr \<lparr> results = search (csvData s) query
                                      (Some (case limit of None \<Rightarrow> 10 | Some k \<Rightarrow> k)),
                            aiResponse = None, intent = None \<rparr>
                  | Inr i \<Rightarrow>
                      (case generateResponse mock (mockCalls s + 1) query (csvData s)
                              (relevantAppsOf (csvData s)
                                 (search (csvData s) query
                                    (Some (case limit of None \<Rightarrow> 10 | Some k \<Rightarrow> k)))) of
                         Inl e \<Rightarrow>
                           Inr \<lparr> results = search (csvData s) query
                                           (Some (case limit of None \<Rightarrow> 10 | Some k \<Rightarrow> k)),
                                 aiResponse = None, intent = None \<rparr>
                       | Inr r \<Rightarrow>
                           Inr \<lparr> results = search (csvData s) query
                                           (Some (case limit of None \<Rightarrow> 10 | Some k \<Rightarrow> k)),
                                 aiResponse = Some r, intent = Some i \<rparr>)))"
    (is "_ = ?rhs")
proof -
  have local: "fst (searchWithAI gemini mock query limit useAI t) = ?rhs"
    if "\<not> useGemini t" and "csvData t = csvData s" and "mockCalls t = mockCalls s" for t
    using that assms(2)
    by (simp add: searchWithAI_local answerWithMock_def welcomeWithMock_def
          welcomeOnly_def resultsOnly_def split: sum.splits)
  show ?thesis
  proof (cases "useGemini s")
    case False
    then show ?thesis by (intro local) simp_all
  next
    case True
    with assms have "fst (searchWithAI gemini mock query limit useAI s)
        = fst (searchWithAI gemini mock query limit useAI (s\<lparr>useGemini := False\<rparr>))"
      using searchWithAI_falls_back [of s useAI gemini query limit mock] by blast
    also have "\<dots> = ?rhs" by (intro local) simp_all
    finally show ?thesis .
  qed
qed

text \<open>
  Claim C1. When \<open>useGemini\<close> is true and a call of the Gemini service awaited for a query in
  AI mode rejects, that one call of \<open>searchWithAI\<close> sets \<open>useGemini\<close> to false and answers
  the query with the mock service: it returns the results of the plain search with the
  intent and the response that the mock service's \<open>analyzeIntent\<close> and
  \<open>generateResponse\<close> return for this query (its welcome for a blank query; the results
  alone when the mock service itself rejects). While \<open>useGemini\<close> is false, \<open>searchWithAI\<close>
  in AI mode returns the same answer of the mock service, makes no call to the Gemini
  service and leaves the flag false, and so does every sequence of operations without
  \<open>retryWithGemini()\<close> and \<open>setUseGemini(true)\<close>: its only calls to the Gemini service
  are those of \<open>getAISuggestions\<close>. The two reset operations set the flag to true.
\<close>

theorem fallback_state_machine:
  "(useGemini s \<and> useAI \<noteq> Some False \<and> geminiFails gemini query limit s \<longrightarrow>
       \<not> useGemini (snd (searchWithAI gemini mock query limit useAI s))
     \<and> fst (searchWithAI gemini mock query limit useAI s)
         = fst (searchWithAI gemini mock query limit useAI (s\<lparr>useGemini := False\<rparr>))
     \<and> mockCalls s < mockCalls (snd (searchWithAI gemini mock query limit useAI s)))
   \<and> (\<not> useGemini s \<longrightarrow>
       \<not> useGemini (snd (searchWithAI gemini mock query limit useAI s))
     \<and> geminiCalls (snd (searchWithAI gemini mock query limit useAI s)) = geminiCalls s)
   \<and> (\<not> useGemini s \<and> useAI \<noteq> Some False \<longrightarrow>
       searchWithAI gemini mock query limit useAI s =
         (if trim query = [] then welcomeWithMock mock s
          else answerWithMock mock query
                 (relevantAppsOf (csvData s)
                    (search (csvData s) query (Some (case limit of None \<Rightarrow> 10 | Some k \<Rightarrow> k))))
                 (search (csvData s) query (Some (case limit of None \<Rightarrow> 10 | Some k \<Rightarrow> k))) s))
   \<and> ((\<not> useGemini s \<or> geminiFails gemini query limit s) \<and> useAI \<noteq> Some False \<longrightarrow>
       fst (searchWithAI gemini mock query limit useAI s) =
         (if trim query = []
          then (case generateWelcomeResponse mock (mockCalls s) (csvData s) of
                  Inl e \<Rightarrow> Inl e
                | Inr w \<Rightarrow> Inr \<lparr> results = [], aiResponse = Some w, intent = None \<rparr>)
          else (case analyzeIntent mock (mockCalls s) query of
                  Inl e \<Rightarrow>
                    Inr \<lparr> results = search (csvData s) query
                                    (Some (case limit of None \<Rightarrow> 10 | Some k \<Rightarrow> k)),
                          aiResponse = None, intent = None \<rparr>
                | Inr i \<Rightarrow>
                    (case generateResponse mock (mockCalls s + 1) query (csvData s)
                            (relevantAppsOf (csvData s)
                               (search (csvData s) query
                                  (Some (case limit of None \<Rightarrow> 10 | Some k \<Rightarrow> k)))) of
                       Inl e \<Rightarrow>
                         Inr \<lparr> results = search (csvData s) query
                                         (Some (case limit of None \<Rightarrow> 10 | Some k \<Rightarrow> k)),
                               aiResponse = None, intent = None \<rparr>
                     | Inr r \<Rightarrow>
                         Inr \<lparr> results = search (csvData s) query
                                         (Some (case limit of None \<Rightarrow> 10 | Some k \<Rightarrow> k)),
                               aiResponse = Some r, intent = Some i \<rparr>))))
   \<and> (\<not> useGemini s \<and> list_all (\<lambda>op. \<not> isReset op) ops \<longrightarrow>
       \<not> useGemini (run gemini mock s ops)
     \<and> geminiCalls (run gemini mock s ops)
         = geminiCalls s + length (filter isSuggestionCall ops))
   \<and> useGemini (step gemini mock s RetryWithGemini)
   \<and> useGemini (step gemini mock s (SetUseGemini True))"
proof -
  note a = searchWithAI_falls_back [of s useAI gemini query limit mock]
  note b = searchWithAI_degraded [of s gemini mock query limit useAI]
  note c = searchWithAI_local [of s useAI gemini mock query limit]
  note d = searchWithAI_mock_answer [of s gemini query limit useAI mock]
  note e = run_degraded [of s ops gemini mock]
  have f: "useGemini (step gemini mock s RetryWithGemini)"
    "useGemini (step gemini mock s (SetUseGemini True))"
    by (simp_all add: retryWithGemini_def setUseGemini_def)
  from a b c d e f show ?thesis by blast
qed

lemma example_fallback_counts:
  "geminiCalls (snd (searchWithAI failingGemini cannedMock ''finance'' None None primaryState)) = 1
   \<and> mockCalls (snd (searchWithAI failingGemini cannedMock ''finance'' None None primaryState)) = 2"
  by code_simp

theorem fallback_state_machine_witness:
  "useGemini primaryState
   \<and> geminiFails failingGemini ''finance'' None primaryState
   \<and> \<not> useGemini (snd (searchWithAI failingGemini cannedMock ''finance'' None None primaryState))
   \<and> fst (searchWithAI failingGemini cannedMock ''finance'' None None primaryState) =
        Inr \<lparr> results = search financeApps ''finance'' (Some 10),
              aiResponse =
                Some \<lparr> answer = ''local'',
                       relevantApps =
                         map app_id
                           (slice0 (relevantAppsOf financeApps
                                      (search financeApps ''finance'' (Some 10))) 5),
                       suggestedQueries = [], confidence = 85 / 100 \<rparr>,
              intent = Some (mock_analyzeIntent ''finance'') \<rparr>
   \<and> geminiCalls
        (run failingGemini cannedMock
           (snd (searchWithAI failingGemini cannedMock ''finance'' None None primaryState))
           [SearchWithAI ''money'' None None, GetCategories, SearchWithAI [] None None,
            SetUseGemini False]) = 1
   \<and> useGemini
        (step failingGemini cannedMock
           (snd (searchWithAI failingGemini cannedMock ''finance'' None None primaryState))
           RetryWithGemini)"
proof -
  let ?s1 = "snd (searchWithAI failingGemini cannedMock ''finance'' None None primaryState)"
  let ?ops = "[SearchWithAI ''money'' None None, GetCategories, SearchWithAI [] None None,
               SetUseGemini False]"
  have p: "useGemini primaryState" by (simp add: primaryState_def)
  have f: "geminiFails failingGemini ''finance'' None primaryState"
    by (simp add: geminiFails_def failingGemini_def)
  have n: "(None :: bool option) \<noteq> Some False" by simp
  have t: "trim ''finance'' \<noteq> []" by code_simp
  note first = fallback_state_machine
    [of primaryState None failingGemini "''finance''" None cannedMock "[]"]
  from first p f n have d: "\<not> useGemini ?s1" by blast
  from first f n
  have "fst (searchWithAI failingGemini cannedMock ''finance'' None None primaryState) =
         (if trim ''finance'' = []
          then (case generateWelcomeResponse cannedMock (mockCalls primaryState)
                       (csvData primaryState) of
                  Inl e \<Rightarrow> Inl e
                | Inr w \<Rightarrow> Inr \<lparr> results = [], aiResponse = Some w, intent = None \<rparr>)
          else (case analyzeIntent cannedMock (mockCalls primaryState) ''finance'' of
                  Inl e \<Rightarrow>
                    Inr \<lparr> results = search (csvData primaryState) ''finance''
                                    (Some (case None of None \<Rightarrow> 10 | Some k \<Rightarrow> k)),
                          aiResponse = None, intent = None \<rparr>
                | Inr i \<Rightarrow>
                    (case generateResponse cannedMock (mockCalls primaryState + 1) ''finance''
                            (csvData primaryState)
                            (relevantAppsOf (csvData primaryState)
                               (search (csvData primaryState) ''finance''
                                  (Some (case None of None \<Rightarrow> 10 | Some k \<Rightarrow> k)))) of
                       Inl e \<Rightarrow>
                         Inr \<lparr> results = search (csvData primaryState) ''finance''
                                         (Some (case None of None \<Rightarrow> 10 | Some k \<Rightarrow> k)),
                               aiResponse = None, intent = None \<rparr>
                     | Inr r \<Rightarrow>
                         Inr \<lparr> results = search (csvData primaryState) ''finance''
                                         (Some (case None of None \<Rightarrow> 10 | Some k \<Rightarrow> k)),
                               aiResponse = Some r, intent = Some i \<rparr>)))"
    by blast
  then have ans: "fst (searchWithAI failingGemini cannedMock ''finance'' None None primaryState) =
        Inr \<lparr> results = search financeApps ''finance'' (Some 10),
              aiResponse =
                Some \<lparr> answer = ''local'',
                       relevantApps =
                         map app_id
                           (slice0 (relevantAppsOf financeApps
                                      (search financeApps ''finance'' (Some 10))) 5),
                       suggestedQueries = [], confidence = 85 / 100 \<rparr>,
              intent = Some (mock_analyzeIntent ''finance'') \<rparr>"
    using t by (simp add: cannedMock_def cannedRespond_def mockAIService_def primaryState_def)
  have ops: "list_all (\<lambda>op. \<not> isReset op) ?ops" "filter isSuggestionCall ?ops = []"
    by simp_all
  from fallback_state_machine [of ?s1 None failingGemini "[]" None cannedMock ?ops] d ops
  have c: "geminiCalls (run failingGemini cannedMock ?s1 ?ops) = geminiCalls ?s1"
    and r: "useGemini (step failingGemini cannedMock ?s1 RetryWithGemini)"
    by simp_all
  from p f d ans c r example_fallback_counts show ?thesis by simp
qed

text \<open>
  The Gemini service of the repository catches every failure of the model inside its own
  methods, so none of its calls rejects: with it, \<open>searchWithAI\<close> never leaves the
  primary state. The fallback is reached with a service whose methods do reject.
\<close>

lemma geminiAIService_never_fails:
  "\<not> geminiFails (geminiAIService model parsed sugg) query limit s"
  by (simp add: geminiFails_def geminiAIService_def gemini_generateResponse_def
        gemini_generateWelcomeResponse_def gemini_analyzeIntent_def
        split: sum.splits option.splits)

lemma geminiAIService_stays_primary:
  "useGemini s \<Longrightarrow>
     useGemini (snd (searchWithAI (geminiAIService model parsed sugg) mock query limit useAI s))"
  by (simp add: searchWithAI_def Let_def geminiAIService_def gemini_generateResponse_def
        gemini_generateWelcomeResponse_def gemini_analyzeIntent_def
        split: sum.splits option.splits)

section \<open>The welcome for a blank query\<close>

lemma gemini_welcomeFallbackAnswer_content:
  "gemini_welcomeFallbackAnswer apps \<noteq> []
   \<and> str_includes (gemini_welcomeFallbackAnswer apps) (showNat (length apps))"
proof -
  have "gemini_welcomeFallbackAnswer apps =
      (''Hi! I'' @ [CHR 0x27]
         @ ''m your AI assistant for discovering applications in our catalog of '')
      @ showNat (length apps)
      @ ('' apps. I can help you find specific tools, browse categories like ''
         @ str_join '', '' (slice0 (uniq [] (map category apps)) 3)
         @ '', or answer questions about our available software. Try asking me something like ''
         @ [CHR 0x22] @ ''Show me finance applications'' @ [CHR 0x22] @ '' or ''
         @ [CHR 0x22] @ ''Find productivity tools for teams'' @ [CHR 0x22] @ ''!'')"
    by (simp add: gemini_welcomeFallbackAnswer_def)
  then show ?thesis
    by (simp only: str_includes_middle) simp
qed

lemma mock_welcome_content:
  "answer (mock_generateWelcomeResponse apps) \<noteq> []
   \<and> str_includes (answer (mock_generateWelcomeResponse apps)) (showNat (length apps))"
proof -
  have "answer (mock_generateWelcomeResponse apps) =
      ([CHR 0xF0, CHR 0x9F, CHR 0x91, CHR 0x8B] @ '' Hello! I'' @ [CHR 0x27]
         @ ''m your AI assistant for discovering applications in our catalog of '')
      @ showNat (length apps)
      @ ('' enterprise applications. I can help you find specific tools, explore categories like ''
         @ str_join '', '' (slice0 (uniq [] (map category apps)) 3)
         @ '', and answer questions about our software portfolio. '' @ [CHR 0x0A, CHR 0x0A]
         @ ''What would you like to find today? You can ask me things like ''
         @ [CHR 0x22] @ ''Show me finance applications'' @ [CHR 0x22] @ '' or ''
         @ [CHR 0x22] @ ''What productivity tools do we have for teams?'' @ [CHR 0x22])"
    by (simp add: mock_generateWelcomeResponse_def)
  then show ?thesis
    by (simp only: str_includes_middle) simp
qed

text \<open>
  Claim C10, as stated, fails: when the model answers the welcome prompt with a blank
  text, the welcome of the generative path has the empty answer, for \<open>answer\<close> is the
  trimmed reply.
\<close>

theorem blank_reply_gives_empty_welcome:
  "fst (searchWithAI (repliesGemini ''  '') cannedMock [] None None primaryState) =
     Inr \<lparr> results = [],
           aiResponse =
             Some \<lparr> answer = [], relevantApps = [],
                    suggestedQueries =
                      [''Show me finance applications'', ''Find productivity tools for teams'',
                       ''What security apps do we have?'', ''Browse entertainment applications''],
                    confidence = 1 \<rparr>,
           intent = None \<rparr>"
proof -
  have t: "trim ''  '' = []" by code_simp
  show ?thesis
    by (simp add: searchWithAI_def Let_def trim_Nil repliesGemini_def geminiAIService_def
          gemini_generateWelcomeResponse_def welcomeOnly_def primaryState_def t)
qed

text \<open>
  Claim C10, amended. For an empty or blank query in AI mode, \<open>searchWithAI\<close> with the two
  services of the repository returns no results and a welcome response with confidence
  1, no referenced applications and exactly 4 suggested queries, none of them empty. When
  \<open>useGemini\<close> is true it is the welcome of the Gemini service: after a model call that
  returned, the answer is the trimmed reply of the model (empty for a blank reply) with
  the four queries of that path; after a model call that failed, the answer is the fixed
  text that names the number of applications, with the four queries of the \<open>catch\<close>
  block. When \<open>useGemini\<close> is false it is the welcome of the mock service, whose answer is
  its fixed text naming the number of applications, with the same four queries as the
  first path.
\<close>

theorem blank_query_welcome:
  assumes "trim query = []" and "useAI \<noteq> Some False"
  shows "\<exists>w s'. searchWithAI (geminiAIService model parsed sugg) (mockAIService respond)
                  query limit useAI s
               = (Inr \<lparr> results = [], aiResponse = Some w, intent = None \<rparr>, s')
          \<and> confidence w = 1 \<and> relevantApps w = [] \<and> length (suggestedQueries w) = 4
          \<and> list_all (\<lambda>q. q \<noteq> []) (suggestedQueries w)
          \<and> (useGemini s \<longrightarrow>
                gemini_generateWelcomeResponse (model (geminiCalls s)) (csvData s) = Inr w
              \<and> useGemini s'
              \<and> (case model (geminiCalls s) of
                    Inr text \<Rightarrow>
                      answer w = trim text
                    \<and> suggestedQueries w =
                        [''Show me finance applications'', ''Find productivity tools for teams'',
                         ''What security apps do we have?'', ''Browse entertainment applications'']
                  | Inl e \<Rightarrow>
                      answer w = gemini_welcomeFallbackAnswer (csvData s)
                    \<and> answer w \<noteq> []
                    \<and> str_includes (answer w) (showNat (length (csvData s)))
                    \<and> suggestedQueries w =
                        [''Show me finance applications'', ''Find productivity tools'',
                         ''What security apps are available?'', ''Browse by category'']))
          \<and> (\<not> useGemini s \<longrightarrow>
                w = mock_generateWelcomeResponse (csvData s) \<and> \<not> useGemini s'
              \<and> answer w \<noteq> []
              \<and> str_includes (answer w) (showNat (length (csvData s)))
              \<and> suggestedQueries w =
                  [''Show me finance applications'', ''Find productivity tools for teams'',
                   ''What security apps do we have?'', ''Browse entertainment applications''])"
proof -
  have ai: "(case useAI of None \<Rightarrow> True | Some b \<Rightarrow> b)"
    using assms(2) by (cases useAI) auto
  have blank: "query = [] \<or> length (trim query) = 0"
    using assms(1) by simp
  show ?thesis
  proof (cases "useGemini s")
    case True
    show ?thesis
    proof (cases "model (geminiCalls s)")
      case (Inl e)
      with True ai blank gemini_welcomeFallbackAnswer_content [of "csvData s"] show ?thesis
        by (simp add: searchWithAI_def Let_def geminiAIService_def welcomeOnly_def
              gemini_generateWelcomeResponse_def)
    next
      case (Inr reply)
      with True ai blank show ?thesis
        by (simp add: searchWithAI_def Let_def geminiAIService_def welcomeOnly_def
              gemini_generateWelcomeResponse_def)
    qed
  next
    case False
    have sq: "suggestedQueries (mock_generateWelcomeResponse (csvData s)) =
        [''Show me finance applications'', ''Find productivity tools for teams'',
         ''What security apps do we have?'', ''Browse entertainment applications'']"
      "confidence (mock_generateWelcomeResponse (csvData s)) = 1"
      "relevantApps (mock_generateWelcomeResponse (csvData s)) = []"
      by (simp_all add: mock_generateWelcomeResponse_def)
    from False ai blank mock_welcome_content [of "csvData s"] sq show ?thesis
      by (simp add: searchWithAI_def Let_def mockAIService_def welcomeOnly_def
            welcomeWithMock_def)
  qed
qed

theorem blank_query_welcome_witness:
  "trim ''  '' = []
   \<and> (\<exists>w s'. searchWithAI (repliesGemini '' Welcome aboard. '') cannedMock ''  '' None None
                   primaryState
                = (Inr \<lparr> results = [], aiResponse = Some w, intent = None \<rparr>, s')
             \<and> answer w = ''Welcome aboard.'' \<and> confidence w = 1
             \<and> suggestedQueries w =
                 [''Show me finance applications'', ''Find productivity tools for teams'',
                  ''What security apps do we have?'', ''Browse entertainment applications''])
   \<and> (\<exists>w s'. searchWithAI offlineGemini cannedMock ''  '' None None primaryState
                = (Inr \<lparr> results = [], aiResponse = Some w, intent = None \<rparr>, s')
             \<and> answer w = gemini_welcomeFallbackAnswer financeApps \<and> answer w \<noteq> []
             \<and> suggestedQueries w =
                 [''Show me finance applications'', ''Find productivity tools'',
                  ''What security apps are available?'', ''Browse by category''])
   \<and> (\<exists>w s'. searchWithAI offlineGemini cannedMock ''  '' None None
                   (primaryState\<lparr>useGemini := False\<rparr>)
                = (Inr \<lparr> results = [], aiResponse = Some w, intent = None \<rparr>, s')
             \<and> w = mock_generateWelcomeResponse financeApps \<and> answer w \<noteq> [])"
proof -
  have t: "trim ''  '' = []" by code_simp
  have r: "trim '' Welcome aboard. '' = ''Welcome aboard.''" by code_simp
  have n: "(None :: bool option) \<noteq> Some False" by simp
  have p: "useGemini primaryState" "csvData primaryState = financeApps"
    by (simp_all add: primaryState_def)
  have u: "\<not> useGemini (primaryState\<lparr>useGemini := False\<rparr>)"
    "csvData (primaryState\<lparr>useGemini := False\<rparr>) = financeApps"
    by (simp_all add: primaryState_def)
  from blank_query_welcome [OF t n, of "\<lambda>n. Inr '' Welcome aboard. ''"
      "\<lambda>n. Inr None" "\<lambda>n query apps. Inr []" cannedRespond None primaryState] p r
  have a: "\<exists>w s'. searchWithAI (repliesGemini '' Welcome aboard. '') cannedMock ''  '' None None
                   primaryState
                = (Inr \<lparr> results = [], aiResponse = Some w, intent = None \<rparr>, s')
             \<and> answer w = ''Welcome aboard.'' \<and> confidence w = 1
             \<and> suggestedQueries w =
                 [''Show me finance applications'', ''Find productivity tools for teams'',
                  ''What security apps do we have?'', ''Browse entertainment applications'']"
    unfolding cannedMock_def repliesGemini_def by (auto simp del: str_includes.simps)
  from blank_query_welcome [OF t n, of "\<lambda>n. Inl (ErrorObject ''Failed to fetch'')"
      "\<lambda>n. Inr None" "\<lambda>n query apps. Inr []" cannedRespond None primaryState] p
  have b: "\<exists>w s'. searchWithAI offlineGemini cannedMock ''  '' None None primaryState
                = (Inr \<lparr> results = [], aiResponse = Some w, intent = None \<rparr>, s')
             \<and> answer w = gemini_welcomeFallbackAnswer financeApps \<and> answer w \<noteq> []
             \<and> suggestedQueries w =
                 [''Show me finance applications'', ''Find productivity tools'',
                  ''What security apps are available?'', ''Browse by category'']"
    unfolding cannedMock_def offlineGemini_def by (auto simp del: str_includes.simps)
  from blank_query_welcome [OF t n, of "\<lambda>n. Inl (ErrorObject ''Failed to fetch'')"
      "\<lambda>n. Inr None" "\<lambda>n query apps. Inr []" cannedRespond None "primaryState\<lparr>useGemini := False\<rparr>"] u
  have c: "\<exists>w s'. searchWithAI offlineGemini cannedMock ''  '' None None
                   (primaryState\<lparr>useGemini := False\<rparr>)
                = (Inr \<lparr> results = [], aiResponse = Some w, intent = None \<rparr>, s')
             \<and> w = mock_generateWelcomeResponse financeApps \<and> answer w \<noteq> []"
    unfolding cannedMock_def offlineGemini_def by (auto simp del: str_includes.simps)
  from t a b c show ?thesis by blast
qed

end
